theory Spec2Isabelle
  imports Complex_Main "HOL-Library.Log_Nat"
begin

section \<open>The store of database.py\<close>

text \<open>
  The SQLite file is modelled by its two tables and the two AUTOINCREMENT counters
  that SQLite keeps for them (sqlite\_sequence). Python integers and SQLite INTEGER
  columns are \<open>int\<close>: the 64 bits of an INTEGER column are not a bound of the model.
  A REAL value is the rational number that the double stands for. The arithmetic of the
  stock prediction is that of doubles (\<open>round_double\<close> below); the amounts that the
  generator multiplies are kept exact. A timestamp is a number of microseconds on the time line of
  the clock that produced it (the order of the stored text values is the order of these
  numbers). A data frame is the list of its rows.
\<close>

type_synonym timestamp = int

record product =
  prod_id :: int
  name :: string
  category :: string
  price :: rat
  cost :: rat
  stock :: int
  created_at :: timestamp

record transaction_row =
  txn_id :: int
  product_id :: int
  quantity :: int
  total_price :: rat
  profit :: rat
  transaction_date :: timestamp

record database =
  products :: "product list"
  transactions :: "transaction_row list"
  products_seq :: int
  transactions_seq :: int

text \<open>
  \<open>create_tables\<close>: CREATE TABLE IF NOT EXISTS for both tables. \<open>None\<close> is a file
  in which the tables do not exist yet.
\<close>

fun create_tables :: "database option \<Rightarrow> database" where
  "create_tables None =
     \<lparr>products = [], transactions = [], products_seq = 0, transactions_seq = 0\<rparr>"
| "create_tables (Some db) = db"

text \<open>
  INTEGER PRIMARY KEY AUTOINCREMENT: the new rowid is one more than the largest rowid
  that is or ever was in the table.
\<close>

definition next_rowid :: "int \<Rightarrow> int list \<Rightarrow> int" where
  "next_rowid seq ids = fold max ids seq + 1"

subsection \<open>Products\<close>

text \<open>\<open>add_product\<close>; \<open>stamp\<close> is the CURRENT\_TIMESTAMP of the insert.\<close>

definition add_product ::
  "database \<Rightarrow> timestamp \<Rightarrow> string \<Rightarrow> string \<Rightarrow> rat \<Rightarrow> rat \<Rightarrow> int \<Rightarrow> int \<times> database" where
  "add_product db stamp nm cat pr co st =
     (let i = next_rowid (products_seq db) (map prod_id (products db)) in
      (i, db\<lparr>products := products db @
                 [\<lparr>prod_id = i, name = nm, category = cat, price = pr, cost = co,
                   stock = st, created_at = stamp\<rparr>],
               products_seq := i\<rparr>))"

text \<open>\<open>get_products\<close>: SELECT * FROM products ORDER BY id.\<close>

definition get_products :: "database \<Rightarrow> product list" where
  "get_products db = sort_key prod_id (products db)"

text \<open>\<open>get_product_by_id\<close>: the row fetchone returns, or None.\<close>

definition get_product_by_id :: "database \<Rightarrow> int \<Rightarrow> product option" where
  "get_product_by_id db i = find (\<lambda>p. prod_id p = i) (products db)"

text \<open>UPDATE products SET stock = ? WHERE id = ?\<close>

definition set_stock :: "int \<Rightarrow> int \<Rightarrow> product list \<Rightarrow> product list" where
  "set_stock i v ps = map (\<lambda>p. if prod_id p = i then p\<lparr>stock := v\<rparr> else p) ps"

text \<open>\<open>update_stock\<close>: the returned flag and the store afterwards.\<close>

definition update_stock :: "database \<Rightarrow> int \<Rightarrow> int \<Rightarrow> bool \<times> database" where
  "update_stock db i quantity_sold =
     (case find (\<lambda>p. prod_id p = i) (products db) of
        None \<Rightarrow> (False, db)
      | Some r \<Rightarrow>
          (let current_stock = stock r in
           if current_stock < quantity_sold then (False, db)
           else (let new_stock = current_stock - quantity_sold in
                 (True, db\<lparr>products := set_stock i new_stock (products db)\<rparr>))))"

definition restock_product :: "database \<Rightarrow> int \<Rightarrow> int \<Rightarrow> bool \<times> database" where
  "restock_product db i quantity_to_add =
     (case find (\<lambda>p. prod_id p = i) (products db) of
        None \<Rightarrow> (False, db)
      | Some r \<Rightarrow>
          (let current_stock = stock r;
               new_stock = current_stock + quantity_to_add in
           (True, db\<lparr>products := set_stock i new_stock (products db)\<rparr>)))"

text \<open>
  \<open>update_product\<close>: an argument left at its default None keeps the stored value.
\<close>

definition update_product ::
  "database \<Rightarrow> int \<Rightarrow> string option \<Rightarrow> string option \<Rightarrow> rat option \<Rightarrow> rat option \<Rightarrow>
     int option \<Rightarrow> bool \<times> database" where
  "update_product db i nm cat pr co st =
     (case get_product_by_id db i of
        None \<Rightarrow> (False, db)
      | Some r \<Rightarrow>
          (let new_name = (case nm of Some v \<Rightarrow> v | None \<Rightarrow> name r);
               new_category = (case cat of Some v \<Rightarrow> v | None \<Rightarrow> category r);
               new_price = (case pr of Some v \<Rightarrow> v | None \<Rightarrow> price r);
               new_cost = (case co of Some v \<Rightarrow> v | None \<Rightarrow> cost r);
               new_stock = (case st of Some v \<Rightarrow> v | None \<Rightarrow> stock r) in
           (True, db\<lparr>products :=
              map (\<lambda>p. if prod_id p = i
                        then p\<lparr>name := new_name, category := new_category,
                               price := new_price, cost := new_cost, stock := new_stock\<rparr>
                        else p) (products db)\<rparr>)))"

text \<open>
  \<open>delete_product\<close>: the transactions of the product are deleted first, then the
  product.
\<close>

definition delete_product :: "database \<Rightarrow> int \<Rightarrow> bool \<times> database" where
  "delete_product db i =
     (case find (\<lambda>p. prod_id p = i) (products db) of
        None \<Rightarrow> (False, db)
      | Some r \<Rightarrow>
          (let db1 = db\<lparr>transactions := filter (\<lambda>t. product_id t \<noteq> i) (transactions db)\<rparr>;
               db2 = db1\<lparr>products := filter (\<lambda>p. prod_id p \<noteq> i) (products db1)\<rparr> in
           (True, db2)))"

subsection \<open>Transactions\<close>

text \<open>
  \<open>add_transaction\<close> stores the values it is given; the date is the
  CURRENT\_TIMESTAMP default. No statement looks the product up.
\<close>

definition insert_transaction ::
  "database \<Rightarrow> int \<Rightarrow> int \<Rightarrow> rat \<Rightarrow> rat \<Rightarrow> timestamp \<Rightarrow> int \<times> database" where
  "insert_transaction db i qty tp pf date =
     (let k = next_rowid (transactions_seq db) (map txn_id (transactions db)) in
      (k, db\<lparr>transactions := transactions db @
                 [\<lparr>txn_id = k, product_id = i, quantity = qty, total_price = tp,
                   profit = pf, transaction_date = date\<rparr>],
               transactions_seq := k\<rparr>))"

definition add_transaction ::
  "database \<Rightarrow> timestamp \<Rightarrow> int \<Rightarrow> int \<Rightarrow> rat \<Rightarrow> rat \<Rightarrow> int \<times> database" where
  "add_transaction db stamp i qty tp pf = insert_transaction db i qty tp pf stamp"

definition add_transaction_with_date ::
  "database \<Rightarrow> int \<Rightarrow> int \<Rightarrow> rat \<Rightarrow> rat \<Rightarrow> timestamp \<Rightarrow> database" where
  "add_transaction_with_date db i qty tp pf date =
     snd (insert_transaction db i qty tp pf date)"

text \<open>\<open>timedelta(days, hours, minutes)\<close> in microseconds.\<close>

definition timedelta :: "int \<Rightarrow> int \<Rightarrow> int \<Rightarrow> int" where
  "timedelta days hours minutes =
     days * 86400000000 + hours * 3600000000 + minutes * 60000000"

record transaction_view =
  view_id :: int
  view_product_id :: int
  product_name :: string
  view_quantity :: int
  view_total_price :: rat
  view_profit :: rat
  view_transaction_date :: timestamp

definition join_row :: "transaction_row \<Rightarrow> product \<Rightarrow> transaction_view" where
  "join_row t p =
     \<lparr>view_id = txn_id t, view_product_id = product_id t, product_name = name p,
      view_quantity = quantity t, view_total_price = total_price t,
      view_profit = profit t, view_transaction_date = transaction_date t\<rparr>"

text \<open>
  \<open>get_transactions\<close>: transactions JOIN products ON t.product\_id = p.id, from
  \<open>now - days\<close> on, newest first. \<open>now\<close> is the reading of datetime.now().
\<close>

definition get_transactions :: "database \<Rightarrow> int \<Rightarrow> timestamp \<Rightarrow> transaction_view list" where
  "get_transactions db days now =
     (let start_date = now - timedelta days 0 0 in
      sort_key (\<lambda>r. - view_transaction_date r)
        (concat (map (\<lambda>t. map (join_row t)
                              (filter (\<lambda>p. product_id t = prod_id p) (products db)))
                     (filter (\<lambda>t. start_date \<le> transaction_date t) (transactions db)))))"

text \<open>
  What a row of \<open>get_transactions\<close> tells about the transaction itself: every column
  but product\_name.
\<close>

definition snapshot :: "transaction_view \<Rightarrow> int \<times> int \<times> int \<times> rat \<times> rat \<times> timestamp" where
  "snapshot r = (view_id r, view_product_id r, view_quantity r, view_total_price r,
                 view_profit r, view_transaction_date r)"

subsection \<open>The stock prediction\<close>

text \<open>
  The two labels of the stock\_status column: the source's strings are a warning sign
  followed by "Perlu Restock" (needs restock) and a check mark followed by "Aman" (safe).
\<close>

datatype status = Perlu_Restock | Aman

record prediction_row =
  pred_product_id :: int
  pred_product_name :: string
  current_stock :: int
  total_sold_3days :: int
  avg_daily_sales :: rat
  predicted_demand :: int
  stock_status :: status

text \<open>\<open>.round(0).astype(int)\<close> of a data frame column: a tie goes to the even integer.\<close>

definition np_round :: "rat \<Rightarrow> int" where
  "np_round x =
     (let f = \<lfloor>x\<rfloor>; d = x - of_int f in
      if d < 1 / 2 then f
      else if 1 / 2 < d then f + 1
      else if even f then f else f + 1)"

text \<open>
  Doubles. \<open>exponent x\<close> is the integer \<open>e\<close> with \<open>2 ^ e \<le> \<bar>x\<bar> < 2 ^ (e + 1)\<close>, and
  \<open>round_double x\<close> is the double nearest to \<open>x\<close>: \<open>x\<close> rounded to 53 significant
  bits, a tie going to the even mantissa. The range of the exponent of a double is not
  a bound of the model. \<open>float_1_2\<close> is the double that the literal 1.2 denotes.
\<close>

definition exponent :: "rat \<Rightarrow> int" where
  "exponent x =
     (case quotient_of \<bar>x\<bar> of (a, b) \<Rightarrow>
        (let k = bitlen a - bitlen b in if 2 powi k \<le> \<bar>x\<bar> then k else k - 1))"

definition round_double :: "rat \<Rightarrow> rat" where
  "round_double x =
     (if x = 0 then 0
      else (let ulp = 2 powi (exponent x - 52) in of_int (np_round (x / ulp)) * ulp))"

definition float_1_2 :: rat where
  "float_1_2 = 5404319552844595 / 4503599627370496"

text \<open>The product and the quotient of two doubles.\<close>

definition float_mul :: "rat \<Rightarrow> rat \<Rightarrow> rat" where
  "float_mul x y = round_double (x * y)"

definition float_div :: "rat \<Rightarrow> rat \<Rightarrow> rat" where
  "float_div x y = round_double (x / y)"

text \<open>AVG(t.quantity) of SQLite: the sum and the count as doubles, and their quotient.\<close>

definition sql_avg :: "int list \<Rightarrow> rat" where
  "sql_avg qs =
     float_div (round_double (of_int (sum_list qs))) (round_double (of_nat (length qs)))"

text \<open>
  The t.quantity values that the LEFT JOIN pairs with product \<open>p\<close>:
  ON p.id = t.product\_id AND t.transaction\_date >= start\_date.
\<close>

definition joined_quantities :: "database \<Rightarrow> timestamp \<Rightarrow> product \<Rightarrow> int list" where
  "joined_quantities db start_date p =
     map quantity
       (filter (\<lambda>t. prod_id p = product_id t \<and> start_date \<le> transaction_date t)
          (transactions db))"

text \<open>
  One row of the data frame. A group of GROUP BY p.id, p.name, p.stock is one product
  (id is the primary key); SUM and AVG of no value are NULL, which COALESCE turns into 0.
  What pandas does with a frame that has no row at all is outside the model, which
  returns the empty list for a products table without rows.
\<close>

definition prediction_of :: "database \<Rightarrow> timestamp \<Rightarrow> product \<Rightarrow> prediction_row" where
  "prediction_of db start_date p =
     (let qs = joined_quantities db start_date p;
          total = (if qs = [] then 0 else sum_list qs);
          avg = (if qs = [] then 0 else sql_avg qs);
          demand = np_round (float_mul avg float_1_2) in
      \<lparr>pred_product_id = prod_id p, pred_product_name = name p, current_stock = stock p,
       total_sold_3days = total, avg_daily_sales = avg, predicted_demand = demand,
       stock_status = (if stock p < demand * 2 then Perlu_Restock else Aman)\<rparr>)"

definition get_sales_prediction :: "database \<Rightarrow> timestamp \<Rightarrow> prediction_row list" where
  "get_sales_prediction db now =
     (let start_date = now - timedelta 3 0 0 in
      sort_key (\<lambda>r. - avg_daily_sales r) (map (prediction_of db start_date) (products db)))"

section \<open>The dummy data generator\<close>

text \<open>
  What the generator reads from outside the store: the raw outputs of the random
  source, the readings of datetime.now() and the values of CURRENT\_TIMESTAMP, each a
  sequence with the number of values already taken.
\<close>

record world =
  draws :: "nat \<Rightarrow> nat"
  drawn :: nat
  clock :: "nat \<Rightarrow> timestamp"
  readings :: nat
  stamps :: "nat \<Rightarrow> timestamp"
  stamped :: nat

datatype error = IndexError | ValueError

text \<open>\<open>random.randint(a, b)\<close>: some integer of a..b; ValueError on an empty range.\<close>

definition randint :: "int \<Rightarrow> int \<Rightarrow> world \<Rightarrow> error + int \<times> world" where
  "randint a b orc =
     (if b < a then Inl ValueError
      else Inr (a + int (draws orc (drawn orc)) mod (b - a + 1),
                orc\<lparr>drawn := Suc (drawn orc)\<rparr>))"

text \<open>\<open>random.choice(xs)\<close>: some element; IndexError on an empty list.\<close>

definition choice :: "'a list \<Rightarrow> world \<Rightarrow> error + 'a \<times> world" where
  "choice xs orc =
     (if xs = [] then Inl IndexError
      else Inr (xs ! (draws orc (drawn orc) mod length xs),
                orc\<lparr>drawn := Suc (drawn orc)\<rparr>))"

definition datetime_now :: "world \<Rightarrow> timestamp \<times> world" where
  "datetime_now orc = (clock orc (readings orc), orc\<lparr>readings := Suc (readings orc)\<rparr>)"

definition current_timestamp :: "world \<Rightarrow> timestamp \<times> world" where
  "current_timestamp orc = (stamps orc (stamped orc), orc\<lparr>stamped := Suc (stamped orc)\<rparr>)"

definition is_database_empty :: "database \<Rightarrow> bool" where
  "is_database_empty db = (length (products db) = 0)"

definition products_data :: "(string \<times> string \<times> rat \<times> rat \<times> int) list" where
  "products_data =
     [(''Laptop Asus ROG'', ''Elektronik'', 15000000, 13000000, 15),
      (''iPhone 15 Pro'', ''Elektronik'', 20000000, 17500000, 10),
      (''Mouse Logitech G502'', ''Aksesoris'', 850000, 650000, 50),
      (''Keyboard Mechanical RGB'', ''Aksesoris'', 750000, 500000, 40),
      (''Monitor Samsung 27 inch'', ''Elektronik'', 3500000, 2800000, 20),
      (''Headphone Sony WH-1000XM5'', ''Aksesoris'', 4500000, 3500000, 25),
      (''SSD Samsung 1TB'', ''Komponen'', 1500000, 1100000, 35),
      (''RAM DDR5 32GB'', ''Komponen'', 2000000, 1500000, 30),
      (''Webcam Logitech C920'', ''Aksesoris'', 1200000, 900000, 45),
      (''Printer Epson L3250'', ''Elektronik'', 3200000, 2600000, 15)]"

text \<open>The first loop: every catalog entry is inserted and its id appended to product\_ids.\<close>

fun insert_products ::
  "(string \<times> string \<times> rat \<times> rat \<times> int) list \<Rightarrow> int list \<Rightarrow> database \<Rightarrow> world \<Rightarrow>
     int list \<times> database \<times> world" where
  "insert_products [] product_ids db orc = (product_ids, db, orc)"
| "insert_products ((nm, cat, pr, co, st) # rest) product_ids db orc =
     (let (stamp, orc1) = current_timestamp orc;
          (i, db1) = add_product db stamp nm cat pr co st in
      insert_products rest (product_ids @ [i]) db1 orc1)"

text \<open>
  The body of the inner loop, for one day offset. The state is transaction\_count with
  the store and the world; the flag says that the body ran into its \<open>break\<close>.
\<close>

definition sell_random ::
  "int \<Rightarrow> int list \<Rightarrow> int \<times> database \<times> world \<Rightarrow> error + bool \<times> int \<times> database \<times> world" where
  "sell_random day_offset product_ids s =
     (case s of (transaction_count, db, orc) \<Rightarrow>
      (case choice product_ids orc of
         Inl e \<Rightarrow> Inl e
       | Inr (i, orc1) \<Rightarrow>
          (case get_product_by_id db i of
             None \<Rightarrow> Inr (False, transaction_count, db, orc1)
           | Some p \<Rightarrow>
               if 0 < stock p then
                 (case randint 1 (min 3 (stock p)) orc1 of
                    Inl e \<Rightarrow> Inl e
                  | Inr (qty, orc2) \<Rightarrow>
                     (let tp = price p * of_int qty;
                          pf = (price p - cost p) * of_int qty;
                          (now, orc3) = datetime_now orc2 in
                      (case randint 8 20 orc3 of
                         Inl e \<Rightarrow> Inl e
                       | Inr (hours, orc4) \<Rightarrow>
                          (case randint 0 59 orc4 of
                             Inl e \<Rightarrow> Inl e
                           | Inr (minutes, orc5) \<Rightarrow>
                              (let date = now - timedelta day_offset hours minutes;
                                   db1 = add_transaction_with_date db i qty tp pf date;
                                   db2 = snd (update_stock db1 i qty);
                                   transaction_count1 = transaction_count + 1 in
                               Inr (50 \<le> transaction_count1, transaction_count1, db2, orc5))))))
               else Inr (False, transaction_count, db, orc1))))"

text \<open>\<open>for _ in range(daily_transactions)\<close>, left at the first \<open>break\<close>.\<close>

fun sell_daily ::
  "nat \<Rightarrow> int \<Rightarrow> int list \<Rightarrow> int \<times> database \<times> world \<Rightarrow> error + int \<times> database \<times> world" where
  "sell_daily 0 day_offset product_ids s = Inr s"
| "sell_daily (Suc n) day_offset product_ids s =
     (case sell_random day_offset product_ids s of
        Inl e \<Rightarrow> Inl e
      | Inr (stop, s1) \<Rightarrow> if stop then Inr s1 else sell_daily n day_offset product_ids s1)"

text \<open>\<open>for day_offset in range(7, -1, -1)\<close>, left once 50 transactions are counted.\<close>

fun sell_days ::
  "int list \<Rightarrow> int list \<Rightarrow> int \<times> database \<times> world \<Rightarrow> error + int \<times> database \<times> world" where
  "sell_days [] product_ids s = Inr s"
| "sell_days (day_offset # later) product_ids s =
     (case s of (transaction_count, db, orc) \<Rightarrow>
      (case randint 5 10 orc of
         Inl e \<Rightarrow> Inl e
       | Inr (daily_transactions, orc1) \<Rightarrow>
          (case sell_daily (nat daily_transactions) day_offset product_ids
                  (transaction_count, db, orc1) of
             Inl e \<Rightarrow> Inl e
           | Inr s1 \<Rightarrow> if 50 \<le> fst s1 then Inr s1 else sell_days later product_ids s1)))"

definition generate_dummy_data :: "database \<Rightarrow> world \<Rightarrow> error + bool \<times> database \<times> world" where
  "generate_dummy_data db orc =
     (case insert_products products_data [] db orc of
        (product_ids, db1, orc1) \<Rightarrow>
          (case sell_days [7, 6, 5, 4, 3, 2, 1, 0] product_ids (0, db1, orc1) of
             Inl e \<Rightarrow> Inl e
           | Inr (transaction_count, db2, orc2) \<Rightarrow> Inr (True, db2, orc2)))"

definition initialize_database ::
  "database option \<Rightarrow> world \<Rightarrow> error + bool \<times> database \<times> world" where
  "initialize_database file orc =
     (let db = create_tables file in
      if is_database_empty db then
        (case generate_dummy_data db orc of
           Inl e \<Rightarrow> Inl e
         | Inr (_, db1, orc1) \<Rightarrow> Inr (True, db1, orc1))
      else Inr (False, db, orc))"

section \<open>Notions used in the statements about the generator\<close>

text \<open>The columns of a product that a sale does not write: all but stock.\<close>

definition listing :: "product \<Rightarrow> int \<times> string \<times> string \<times> rat \<times> rat \<times> timestamp" where
  "listing p = (prod_id p, name p, category p, price p, cost p, created_at p)"

text \<open>A catalog entry as \<open>products_data\<close> lists it, and the entry without its stock.\<close>

definition entry :: "product \<Rightarrow> string \<times> string \<times> rat \<times> rat \<times> int" where
  "entry p = (name p, category p, price p, cost p, stock p)"

definition label :: "product \<Rightarrow> string \<times> string \<times> rat \<times> rat" where
  "label p = (name p, category p, price p, cost p)"

text \<open>
  A date that the generator can compute from a reading of the clock: some reading minus
  a day offset of the outer loop, 8 to 20 hours and 0 to 59 minutes.
\<close>

definition backdated :: "(nat \<Rightarrow> timestamp) \<Rightarrow> timestamp \<Rightarrow> bool" where
  "backdated clk date =
     (\<exists>k d h m. date = clk k - timedelta d h m \<and>
        0 \<le> d \<and> d \<le> 7 \<and> 8 \<le> h \<and> h \<le> 20 \<and> 0 \<le> m \<and> m \<le> 59)"

text \<open>
  The loop invariant of the generator, for the store \<open>db0\<close> and the count \<open>c0\<close>
  at which the loops are entered: the clock is the same, the products differ from those
  of \<open>db0\<close> in stock only, the counter of product ids is the same, and the
  transactions are those of \<open>db0\<close> followed by one backdated transaction for each
  count above \<open>c0\<close>.
\<close>

definition seeding ::
  "database \<Rightarrow> int \<Rightarrow> (nat \<Rightarrow> timestamp) \<Rightarrow> int \<times> database \<times> world \<Rightarrow> bool" where
  "seeding db0 c0 clk s =
     (case s of (c, db, w) \<Rightarrow>
        clock w = clk \<and>
        map listing (products db) = map listing (products db0) \<and>
        products_seq db = products_seq db0 \<and>
        (\<exists>new. transactions db = transactions db0 @ new \<and> int (length new) = c - c0 \<and>
           (\<forall>t \<in> set new. backdated clk (transaction_date t))))"

text \<open>DATE(transaction\_date): the number of the calendar day.\<close>

definition calendar_date :: "timestamp \<Rightarrow> int" where
  "calendar_date ts = ts div 86400000000"

section \<open>Sequences of calls\<close>

text \<open>
  One call of a function of the module that writes to the store, with its arguments, and
  the store after the call. \<open>initialize_database\<close> finds the tables in place; it never
  raises (lemma \<open>generate_dummy_data_spec\<close>), the case of an exception is there to make
  the function total.
\<close>

datatype command =
    Add_product timestamp string string rat rat int
  | Update_stock int int
  | Restock_product int int
  | Update_product int "string option" "string option" "rat option" "rat option" "int option"
  | Delete_product int
  | Add_transaction timestamp int int rat rat
  | Add_transaction_with_date int int rat rat timestamp
  | Initialize_database world

fun call :: "command \<Rightarrow> database \<Rightarrow> database" where
  "call (Add_product stamp nm cat pr co st) db = snd (add_product db stamp nm cat pr co st)"
| "call (Update_stock i q) db = snd (update_stock db i q)"
| "call (Restock_product i q) db = snd (restock_product db i q)"
| "call (Update_product i nm cat pr co st) db = snd (update_product db i nm cat pr co st)"
| "call (Delete_product i) db = snd (delete_product db i)"
| "call (Add_transaction stamp i qty tp pf) db = snd (add_transaction db stamp i qty tp pf)"
| "call (Add_transaction_with_date i qty tp pf date) db =
     add_transaction_with_date db i qty tp pf date"
| "call (Initialize_database w) db =
     (case initialize_database (Some db) w of
        Inl e \<Rightarrow> db
      | Inr (first_run, db1, w1) \<Rightarrow> db1)"

text \<open>
  The counter of AUTOINCREMENT is at least every product id of the table; every store
  that calls build from a new file is of this kind (lemma \<open>well_numbered_calls\<close>).
\<close>

definition well_numbered :: "database \<Rightarrow> bool" where
  "well_numbered db \<longleftrightarrow> (\<forall>p \<in> set (products db). prod_id p \<le> products_seq db)"

text \<open>An id that no product has and that the counter has passed.\<close>

definition retired :: "int \<Rightarrow> database \<Rightarrow> bool" where
  "retired i db \<longleftrightarrow> i \<le> products_seq db \<and> i \<notin> prod_id ` set (products db)"

section \<open>Concrete stores\<close>

text \<open>A new file with one product of stock 5, which gets the id 1.\<close>

definition shop :: database where
  "shop = snd (add_product (create_tables None) 0 ''Mouse'' ''Aksesoris'' 850 650 5)"

text \<open>The same store after a sale of 2 units recorded with total 1000 and profit 200.\<close>

definition shop_sold :: database where
  "shop_sold = snd (add_transaction shop 50 1 2 1000 200)"

text \<open>The store \<open>shop\<close> after \<open>restock_product\<close> with the quantity \<open>- 6\<close>.\<close>

definition shop_debt :: database where
  "shop_debt = snd (restock_product shop 1 (- 6))"

text \<open>The store \<open>shop\<close> after four sales of 1, 1, 1 and 2 units, all at time 90.\<close>

definition shop_busy :: database where
  "shop_busy =
     fold (\<lambda>q db. add_transaction_with_date db 1 q (850 * of_int q) (200 * of_int q) 90)
       [1, 1, 1, 2] shop"

text \<open>The store \<open>shop\<close> after twelve sales, eleven of 2 units and one of 3, all at time 90.\<close>

definition shop_ties :: database where
  "shop_ties =
     fold (\<lambda>q db. add_transaction_with_date db 1 q (850 * of_int q) (200 * of_int q) 90)
       [2, 2, 2, 2, 2, 2, 2, 2, 2, 2, 2, 3] shop"

text \<open>
  A run of the generator at 07:00:00 of day 20000 (2024-10-04 when day 0 is 1970-01-01),
  with a random source whose raw outputs are all 0: \<open>randint\<close> returns its lower
  bound and \<open>choice\<close> the first element.
\<close>

definition morning :: world where
  "morning =
     \<lparr>draws = (\<lambda>n. 0), drawn = 0, clock = (\<lambda>n. 1728025200000000), readings = 0,
      stamps = (\<lambda>n. 1728000000000000), stamped = 0\<rparr>"

text \<open>The new file after the ten catalog entries have been inserted in that run.\<close>

definition morning_store :: database where
  "morning_store =
     \<lparr>products =
        [\<lparr>prod_id = 1, name = ''Laptop Asus ROG'', category = ''Elektronik'', price = 15000000,
          cost = 13000000, stock = 15, created_at = 1728000000000000\<rparr>,
         \<lparr>prod_id = 2, name = ''iPhone 15 Pro'', category = ''Elektronik'', price = 20000000,
          cost = 17500000, stock = 10, created_at = 1728000000000000\<rparr>,
         \<lparr>prod_id = 3, name = ''Mouse Logitech G502'', category = ''Aksesoris'', price = 850000,
          cost = 650000, stock = 50, created_at = 1728000000000000\<rparr>,
         \<lparr>prod_id = 4, name = ''Keyboard Mechanical RGB'', category = ''Aksesoris'', price = 750000,
          cost = 500000, stock = 40, created_at = 1728000000000000\<rparr>,
         \<lparr>prod_id = 5, name = ''Monitor Samsung 27 inch'', category = ''Elektronik'', price = 3500000,
          cost = 2800000, stock = 20, created_at = 1728000000000000\<rparr>,
         \<lparr>prod_id = 6, name = ''Headphone Sony WH-1000XM5'', category = ''Aksesoris'', price = 4500000,
          cost = 3500000, stock = 25, created_at = 1728000000000000\<rparr>,
         \<lparr>prod_id = 7, name = ''SSD Samsung 1TB'', category = ''Komponen'', price = 1500000,
          cost = 1100000, stock = 35, created_at = 1728000000000000\<rparr>,
         \<lparr>prod_id = 8, name = ''RAM DDR5 32GB'', category = ''Komponen'', price = 2000000,
          cost = 1500000, stock = 30, created_at = 1728000000000000\<rparr>,
         \<lparr>prod_id = 9, name = ''Webcam Logitech C920'', category = ''Aksesoris'', price = 1200000,
          cost = 900000, stock = 45, created_at = 1728000000000000\<rparr>,
         \<lparr>prod_id = 10, name = ''Printer Epson L3250'', category = ''Elektronik'', price = 3200000,
          cost = 2600000, stock = 15, created_at = 1728000000000000\<rparr>],
      transactions = [], products_seq = 10, transactions_seq = 0\<rparr>"

text \<open>
  The new file after \<open>initialize_database\<close> in that run, and the same store after
  \<open>delete_product\<close> for each of the ids 1 to 10.
\<close>

definition seeded :: database where
  "seeded = call (Initialize_database morning) (create_tables None)"

definition emptied :: database where
  "emptied = fold call (map Delete_product [1, 2, 3, 4, 5, 6, 7, 8, 9, 10]) seeded"

text \<open>
  The store \<open>shop\<close> after a sale recorded for the product id 2, which no product has,
  and that store after the next \<open>add_product\<close>.
\<close>

definition shop_orphan :: database where
  "shop_orphan = snd (add_transaction shop 50 2 1 10 2)"

definition shop_adopted :: database where
  "shop_adopted = snd (add_product shop_orphan 60 ''Keyboard'' ''Aksesoris'' 750 500 40)"

text \<open>The store \<open>shop_sold\<close> after its product has been deleted.\<close>

definition shop_closed :: database where
  "shop_closed = snd (delete_product shop_sold 1)"

section \<open>Stock updates\<close>

lemma find_set_stock:
  "find (\<lambda>p. prod_id p = i) (set_stock i v ps) =
     map_option (\<lambda>p. p\<lparr>stock := v\<rparr>) (find (\<lambda>p. prod_id p = i) ps)"
  by (induction ps) (auto simp: set_stock_def)

lemma shop_eval:
  "shop =
     \<lparr>products =
        [\<lparr>prod_id = 1, name = ''Mouse'', category = ''Aksesoris'', price = 850, cost = 650,
          stock = 5, created_at = 0\<rparr>],
      transactions = [], products_seq = 1, transactions_seq = 0\<rparr>"
  by (simp add: shop_def add_product_def next_rowid_def)

lemma shop_products:
  "products shop =
     [\<lparr>prod_id = 1, name = ''Mouse'', category = ''Aksesoris'', price = 850, cost = 650,
       stock = 5, created_at = 0\<rparr>]"
  by (simp add: shop_eval)

lemma shop_lookup:
  "get_product_by_id shop 1 =
     Some \<lparr>prod_id = 1, name = ''Mouse'', category = ''Aksesoris'', price = 850, cost = 650,
           stock = 5, created_at = 0\<rparr>"
  by (simp add: get_product_by_id_def shop_products)

text \<open>
  Claim C1. For a product that exists with stock \<open>s\<close>, \<open>update_stock\<close> with quantity
  \<open>q\<close> returns True exactly when \<open>q \<le> s\<close>, and then the stock read back is
  \<open>s - q\<close>. For a product that does not exist it returns False. Whenever it returns
  False the store (products, transactions, counters) is the store it was given.
\<close>

theorem update_stock_spec:
  "(\<forall>p. get_product_by_id db i = Some p \<longrightarrow>
       (fst (update_stock db i q) \<longleftrightarrow> q \<le> stock p) \<and>
       (fst (update_stock db i q) \<longrightarrow>
          map_option stock (get_product_by_id (snd (update_stock db i q)) i) =
            Some (stock p - q))) \<and>
   (get_product_by_id db i = None \<longrightarrow> \<not> fst (update_stock db i q)) \<and>
   (\<not> fst (update_stock db i q) \<longrightarrow> snd (update_stock db i q) = db)"
  by (auto simp: update_stock_def get_product_by_id_def find_set_stock Let_def
           split: option.splits)

theorem update_stock_spec_witness:
  "fst (update_stock shop 1 5) \<and>
   map_option stock (get_product_by_id (snd (update_stock shop 1 5)) 1) = Some 0 \<and>
   \<not> fst (update_stock shop 1 6) \<and> snd (update_stock shop 1 6) = shop \<and>
   \<not> fst (update_stock shop 2 1) \<and> snd (update_stock shop 2 1) = shop"
proof -
  have absent: "get_product_by_id shop 2 = None"
    by (simp add: get_product_by_id_def shop_products)
  show ?thesis
    using update_stock_spec [of shop 1 5] update_stock_spec [of shop 1 6]
      update_stock_spec [of shop 2 1] shop_lookup absent
    by simp
qed

text \<open>
  Claim C9. For a product that exists with stock \<open>s\<close> and any integer \<open>q\<close>,
  \<open>restock_product\<close> returns True and the stock read back is \<open>s + q\<close>; when
  \<open>q < - s\<close> that stock is negative.
\<close>

theorem restock_product_adds:
  "get_product_by_id db i = Some p \<Longrightarrow>
     fst (restock_product db i q) \<and>
     map_option stock (get_product_by_id (snd (restock_product db i q)) i) =
       Some (stock p + q) \<and>
     (q < - stock p \<longrightarrow>
        (\<exists>r. get_product_by_id (snd (restock_product db i q)) i = Some r \<and> stock r < 0))"
  by (auto simp: restock_product_def get_product_by_id_def find_set_stock Let_def
           split: option.splits)

theorem restock_product_adds_witness:
  "get_product_by_id shop 1 \<noteq> None \<and>
   fst (restock_product shop 1 (- 6)) \<and>
   map_option stock (get_product_by_id (snd (restock_product shop 1 (- 6))) 1) = Some (- 1) \<and>
   (\<exists>r. get_product_by_id (snd (restock_product shop 1 (- 6))) 1 = Some r \<and> stock r < 0)"
  using restock_product_adds [OF shop_lookup, of "- 6"] shop_lookup by simp

text \<open>
  Claim C4 says that \<open>update_stock\<close> and \<open>restock_product\<close> fail on a negative
  quantity and leave the stock as it was. On the product of stock 5 both return True
  for the quantity \<open>- 3\<close>; the stock becomes 8 and 2.
\<close>

theorem negative_quantity_counterexample:
  "map_option stock (get_product_by_id shop 1) = Some 5 \<and>
   fst (update_stock shop 1 (- 3)) \<and>
   map_option stock (get_product_by_id (snd (update_stock shop 1 (- 3))) 1) = Some 8 \<and>
   fst (restock_product shop 1 (- 3)) \<and>
   map_option stock (get_product_by_id (snd (restock_product shop 1 (- 3))) 1) = Some 2"
  by (simp add: get_product_by_id_def update_stock_def restock_product_def set_stock_def
        shop_products)

text \<open>
  Claim C4, amended. Neither function looks at the sign of the quantity. For a product
  that exists with stock \<open>s \<ge> 0\<close> and a quantity \<open>q < 0\<close>, \<open>update_stock\<close> returns
  True and writes \<open>s - q\<close>, which is more than \<open>s\<close>, and \<open>restock_product\<close> returns
  True and writes \<open>s + q\<close>, which is less than \<open>s\<close>.
\<close>

theorem negative_quantity_accepted:
  "get_product_by_id db i = Some p \<Longrightarrow> q < 0 \<Longrightarrow> 0 \<le> stock p \<Longrightarrow>
     update_stock db i q = (True, db\<lparr>products := set_stock i (stock p - q) (products db)\<rparr>) \<and>
     restock_product db i q = (True, db\<lparr>products := set_stock i (stock p + q) (products db)\<rparr>) \<and>
     map_option stock (get_product_by_id (snd (update_stock db i q)) i) = Some (stock p - q) \<and>
     map_option stock (get_product_by_id (snd (restock_product db i q)) i) = Some (stock p + q) \<and>
     stock p < stock p - q \<and> stock p + q < stock p"
  by (auto simp: update_stock_def restock_product_def get_product_by_id_def find_set_stock
           Let_def split: option.splits)

theorem negative_quantity_accepted_witness:
  "get_product_by_id shop 1 \<noteq> None \<and>
   update_stock shop 1 (- 3) = (True, shop\<lparr>products := set_stock 1 8 (products shop)\<rparr>) \<and>
   restock_product shop 1 (- 3) = (True, shop\<lparr>products := set_stock 1 2 (products shop)\<rparr>)"
  using negative_quantity_accepted [OF shop_lookup, of "- 3"] shop_lookup by simp

section \<open>Rows of get\_transactions\<close>

lemma find_None_iff_id: "find (\<lambda>p. prod_id p = i) ps = None \<longleftrightarrow> i \<notin> prod_id ` set ps"
  by (auto simp: find_None_iff)

lemma set_get_transactions:
  "set (get_transactions db days now) =
     {join_row t p | t p. t \<in> set (transactions db) \<and> now - timedelta days 0 0 \<le> transaction_date t \<and>
        p \<in> set (products db) \<and> product_id t = prod_id p}"
  by (auto simp: get_transactions_def Let_def)

lemma view_has_product:
  "r \<in> set (get_transactions db days now) \<Longrightarrow>
     \<exists>t p. t \<in> set (transactions db) \<and> p \<in> set (products db) \<and> product_id t = prod_id p \<and>
       view_product_id r = prod_id p \<and> view_id r = txn_id t"
  by (fastforce simp: set_get_transactions join_row_def)

lemma no_product_no_view:
  "get_product_by_id db i = None \<Longrightarrow> r \<in> set (get_transactions db days now) \<Longrightarrow>
     view_product_id r \<noteq> i"
  by (auto simp: get_product_by_id_def find_None_iff dest!: view_has_product)

lemma fold_max_lower: "(s::int) \<le> fold max xs s"
proof (induction xs arbitrary: s)
  case Nil
  then show ?case by simp
next
  case (Cons a xs)
  have "s \<le> max a s" by simp
  also have "max a s \<le> fold max xs (max a s)" by (rule Cons.IH)
  finally show ?case by simp
qed

lemma fold_max_upper: "(x::int) \<in> set xs \<Longrightarrow> x \<le> fold max xs s"
proof (induction xs arbitrary: s)
  case Nil
  then show ?case by simp
next
  case (Cons a xs)
  show ?case
  proof (cases "x = a")
    case True
    have "max a s \<le> fold max xs (max a s)" by (rule fold_max_lower)
    then show ?thesis using True by simp
  next
    case False
    then show ?thesis using Cons by simp
  qed
qed

lemma next_rowid_fresh: "next_rowid seq ids \<notin> set ids"
proof
  assume "next_rowid seq ids \<in> set ids"
  then have "next_rowid seq ids \<le> fold max ids seq" by (rule fold_max_upper)
  then show False by (simp add: next_rowid_def)
qed

lemma next_rowid_above: "seq < next_rowid seq ids"
  using fold_max_lower [of seq ids] by (simp add: next_rowid_def)

lemma insert_transaction_result:
  "insert_transaction db i qty tp pf date =
     (next_rowid (transactions_seq db) (map txn_id (transactions db)),
      db\<lparr>transactions := transactions db @
           [\<lparr>txn_id = next_rowid (transactions_seq db) (map txn_id (transactions db)),
             product_id = i, quantity = qty, total_price = tp, profit = pf,
             transaction_date = date\<rparr>],
         transactions_seq := next_rowid (transactions_seq db) (map txn_id (transactions db))\<rparr>)"
  by (simp add: insert_transaction_def Let_def)

lemma shop_sold_eval:
  "shop_sold =
     \<lparr>products =
        [\<lparr>prod_id = 1, name = ''Mouse'', category = ''Aksesoris'', price = 850, cost = 650,
          stock = 5, created_at = 0\<rparr>],
      transactions =
        [\<lparr>txn_id = 1, product_id = 1, quantity = 2, total_price = 1000, profit = 200,
          transaction_date = 50\<rparr>],
      products_seq = 1, transactions_seq = 1\<rparr>"
  by (simp add: shop_sold_def add_transaction_def insert_transaction_result next_rowid_def
        shop_eval)

section \<open>Snapshots of a sale\<close>

lemma map_insort_key:
  "map g (insort_key (\<lambda>x. k (g x)) x xs) = insort_key k (g x) (map g xs)"
  by (induction xs) auto

lemma map_sort_key: "map g (sort_key (\<lambda>x. k (g x)) xs) = sort_key k (map g xs)"
  by (induction xs) (auto simp: map_insort_key)

lemma snapshot_join: "snapshot (join_row t p) = snapshot (join_row t p')"
  by (simp add: snapshot_def join_row_def)

lemma snapshots_of_join:
  assumes "\<And>p. prod_id (u p) = prod_id p"
  shows "map snapshot (concat (map (\<lambda>t. map (join_row t) (filter (\<lambda>p. product_id t = prod_id p) (map u ps))) ts)) =
         map snapshot (concat (map (\<lambda>t. map (join_row t) (filter (\<lambda>p. product_id t = prod_id p) ps)) ts))"
proof -
  have "map snapshot (map (join_row t) (filter (\<lambda>p. product_id t = prod_id p) (map u ps))) =
        map snapshot (map (join_row t) (filter (\<lambda>p. product_id t = prod_id p) ps))" for t
    by (induction ps) (auto simp: assms snapshot_join [of t "u _"])
  then show ?thesis
    by (simp add: map_concat o_def)
qed

lemma snapshots_sorted:
  "map snapshot (sort_key (\<lambda>r. - view_transaction_date r) xs) =
     sort_key (\<lambda>s. - snd (snd (snd (snd (snd s))))) (map snapshot xs)"
  using map_sort_key [of snapshot "\<lambda>s. - snd (snd (snd (snd (snd s))))" xs]
  by (simp add: snapshot_def)

lemma update_product_products:
  "\<exists>u. (\<forall>p. prod_id (u p) = prod_id p) \<and>
       products (snd (update_product db i nm cat pr co st)) = map u (products db) \<and>
       transactions (snd (update_product db i nm cat pr co st)) = transactions db"
proof (cases "get_product_by_id db i")
  case None
  have "update_product db i nm cat pr co st = (False, db)"
    using None by (simp add: update_product_def)
  then show ?thesis by (intro exI [of _ "\<lambda>p. p"]) simp
next
  case (Some r)
  define u :: "product \<Rightarrow> product" where "u = (\<lambda>p. if prod_id p = i
     then p\<lparr>name := (case nm of Some v \<Rightarrow> v | None \<Rightarrow> name r),
            category := (case cat of Some v \<Rightarrow> v | None \<Rightarrow> category r),
            price := (case pr of Some v \<Rightarrow> v | None \<Rightarrow> price r),
            cost := (case co of Some v \<Rightarrow> v | None \<Rightarrow> cost r),
            stock := (case st of Some v \<Rightarrow> v | None \<Rightarrow> stock r)\<rparr>
     else p)"
  have "\<forall>p. prod_id (u p) = prod_id p" by (simp add: u_def)
  moreover have "products (snd (update_product db i nm cat pr co st)) = map u (products db)"
    using Some by (simp add: update_product_def Let_def u_def)
  moreover have "transactions (snd (update_product db i nm cat pr co st)) = transactions db"
    using Some by (simp add: update_product_def Let_def)
  ultimately show ?thesis by (intro exI [of _ u]) simp
qed

text \<open>
  Claim C3. \<open>update_product\<close>, whatever fields it is given, leaves the transactions
  table as it is, and \<open>get_transactions\<close> afterwards reports, for every window, the same
  rows in the same order with the same id, product\_id, quantity, total\_price, profit and
  transaction\_date as before: only product\_name can differ.
\<close>

theorem update_product_keeps_snapshots:
  "transactions (snd (update_product db i nm cat pr co st)) = transactions db \<and>
   map snapshot (get_transactions (snd (update_product db i nm cat pr co st)) days now) =
     map snapshot (get_transactions db days now)"
proof -
  obtain u where u: "\<And>p. prod_id (u p) = prod_id p"
    and ps: "products (snd (update_product db i nm cat pr co st)) = map u (products db)"
    and ts: "transactions (snd (update_product db i nm cat pr co st)) = transactions db"
    using update_product_products [of db i nm cat pr co st] by blast
  show ?thesis
    unfolding get_transactions_def Let_def snapshots_sorted ps ts
    by (simp only: snapshots_of_join [of u, OF u] simp_thms)
qed

theorem update_product_keeps_snapshots_witness:
  "map_option (\<lambda>p. (price p, cost p))
     (get_product_by_id (snd (update_product shop_sold 1 None None (Some 999) (Some 1) None)) 1) =
     Some (999, 1) \<and>
   map snapshot
     (get_transactions (snd (update_product shop_sold 1 None None (Some 999) (Some 1) None)) 7 60) =
     [(1, 1, 2, 1000, 200, 50)]"
proof -
  have before: "map snapshot (get_transactions shop_sold 7 60) = [(1, 1, 2, 1000, 200, 50)]"
    by (simp add: get_transactions_def shop_sold_eval join_row_def snapshot_def timedelta_def)
  have edited: "map_option (\<lambda>p. (price p, cost p))
     (get_product_by_id (snd (update_product shop_sold 1 None None (Some 999) (Some 1) None)) 1) =
     Some (999, 1)"
    by (simp add: update_product_def get_product_by_id_def shop_sold_eval)
  show ?thesis
    using update_product_keeps_snapshots [of shop_sold 1 None None "Some 999" "Some 1" None 7 60]
      before edited
    by simp
qed

section \<open>The stock prediction\<close>

lemma np_round_cases:
  fixes x :: rat
  defines "d \<equiv> x - of_int \<lfloor>x\<rfloor>"
  shows "0 \<le> d \<and> d < 1 \<and>
         (d < 1 / 2 \<longrightarrow> np_round x = \<lfloor>x\<rfloor>) \<and>
         (1 / 2 < d \<longrightarrow> np_round x = \<lfloor>x\<rfloor> + 1) \<and>
         (d = 1 / 2 \<longrightarrow> even (np_round x) \<and> (np_round x = \<lfloor>x\<rfloor> \<or> np_round x = \<lfloor>x\<rfloor> + 1))"
proof -
  have "of_int \<lfloor>x\<rfloor> \<le> x" "x < of_int \<lfloor>x\<rfloor> + 1" by linarith+
  then have "0 \<le> d" "d < 1" by (simp_all add: d_def)
  then show ?thesis by (auto simp: np_round_def Let_def d_def)
qed

lemma np_round_near: "\<bar>of_int (np_round x) - x\<bar> \<le> 1 / 2"
  using np_round_cases [of x] by (cases "x - of_int \<lfloor>x\<rfloor> < 1 / 2"; cases "1 / 2 < x - of_int \<lfloor>x\<rfloor>") auto

lemma np_round_nearest: "\<bar>of_int (np_round x) - x\<bar> \<le> \<bar>of_int k - x\<bar>"
proof (cases "k \<le> \<lfloor>x\<rfloor>")
  case True
  then have "(of_int k :: rat) \<le> of_int \<lfloor>x\<rfloor>" by simp
  moreover have "of_int \<lfloor>x\<rfloor> \<le> x" by linarith
  ultimately have "\<bar>of_int k - x\<bar> \<ge> x - of_int \<lfloor>x\<rfloor>" by linarith
  then show ?thesis
    using np_round_cases [of x]
    by (cases "x - of_int \<lfloor>x\<rfloor> < 1 / 2"; cases "1 / 2 < x - of_int \<lfloor>x\<rfloor>") auto
next
  case False
  then have "\<lfloor>x\<rfloor> + 1 \<le> k" by simp
  then have "(of_int (\<lfloor>x\<rfloor> + 1) :: rat) \<le> of_int k" by (simp only: of_int_le_iff)
  moreover have "x < of_int \<lfloor>x\<rfloor> + 1" by linarith
  ultimately have "\<bar>of_int k - x\<bar> \<ge> of_int \<lfloor>x\<rfloor> + 1 - x" by simp
  then show ?thesis
    using np_round_cases [of x]
    by (cases "x - of_int \<lfloor>x\<rfloor> < 1 / 2"; cases "1 / 2 < x - of_int \<lfloor>x\<rfloor>") auto
qed

lemma np_round_tie: "\<bar>of_int (np_round x) - x\<bar> = 1 / 2 \<Longrightarrow> even (np_round x)"
  using np_round_cases [of x]
  by (cases "x - of_int \<lfloor>x\<rfloor> < 1 / 2"; cases "1 / 2 < x - of_int \<lfloor>x\<rfloor>") auto

lemma np_round_zero: "np_round 0 = 0"
  by (simp add: np_round_def)

lemma pow2_bitlen:
  assumes "0 < a"
  shows "(2::rat) powi (bitlen a - 1) \<le> of_int a" and "of_int a < (2::rat) powi bitlen a"
proof -
  from bitlen_bounds [OF assms] have lo: "2 ^ nat (bitlen a - 1) \<le> a" and hi: "a < 2 ^ nat (bitlen a)"
    by simp_all
  have ge1: "1 \<le> bitlen a" using assms by (auto simp: bitlen_alt_def)
  have "(of_int (2 ^ nat (bitlen a - 1)) :: rat) \<le> of_int a" using lo by (simp only: of_int_le_iff)
  then show "(2::rat) powi (bitlen a - 1) \<le> of_int a"
    using ge1 by (simp add: power_int_def)
  have "(of_int a :: rat) < of_int (2 ^ nat (bitlen a))" using hi by (simp only: of_int_less_iff)
  then show "of_int a < (2::rat) powi bitlen a"
    using ge1 by (simp add: power_int_def)
qed

lemma exponent_lower:
  assumes "x \<noteq> 0"
  shows "2 powi exponent x \<le> \<bar>x\<bar>"
proof -
  obtain a b where q: "quotient_of \<bar>x\<bar> = (a, b)" by (cases "quotient_of \<bar>x\<bar>")
  have b: "0 < b" using q by (rule quotient_of_denom_pos)
  have x: "\<bar>x\<bar> = of_int a / of_int b" using q by (rule quotient_of_div)
  have "0 < \<bar>x\<bar>" using assms by simp
  then have a: "0 < a" using b x by (simp add: zero_less_divide_iff)
  let ?k = "bitlen a - bitlen b"
  show ?thesis
  proof (cases "2 powi ?k \<le> \<bar>x\<bar>")
    case True
    then show ?thesis by (simp add: exponent_def q)
  next
    case False
    have e: "exponent x = ?k - 1" using False by (simp add: exponent_def q)
    have "(2::rat) powi (?k - 1) = 2 powi (bitlen a - 1) / 2 powi bitlen b"
      by (simp add: power_int_diff)
    also have "\<dots> \<le> of_int a / 2 powi bitlen b"
      using pow2_bitlen(1) [OF a] by (simp add: divide_right_mono)
    also have "\<dots> \<le> of_int a / of_int b"
      using pow2_bitlen(2) [OF b] a b by (simp add: divide_left_mono less_imp_le)
    finally show ?thesis by (simp add: e x)
  qed
qed

lemma round_double_zero: "round_double 0 = 0"
  by (simp add: round_double_def)

lemma round_double_error: "\<bar>round_double x - x\<bar> \<le> \<bar>x\<bar> / 2 ^ 53"
proof (cases "x = 0")
  case True
  then show ?thesis by (simp add: round_double_def)
next
  case False
  let ?u = "(2::rat) powi (exponent x - 52)"
  have u: "0 < ?u" by simp
  have "round_double x - x = (of_int (np_round (x / ?u)) - x / ?u) * ?u"
    using False by (simp add: round_double_def Let_def algebra_simps)
  then have "\<bar>round_double x - x\<bar> = \<bar>of_int (np_round (x / ?u)) - x / ?u\<bar> * ?u"
    using u by (simp add: abs_mult)
  also have "\<dots> \<le> 1 / 2 * ?u"
    using np_round_near [of "x / ?u"] u by (intro mult_right_mono) simp_all
  also have "\<dots> = 2 powi exponent x / 2 ^ 53"
    by (simp add: power_int_diff)
  also have "\<dots> \<le> \<bar>x\<bar> / 2 ^ 53"
    using exponent_lower [OF False] by (simp add: divide_right_mono)
  finally show ?thesis .
qed

lemma float_1_2_error: "12 / 10 - float_1_2 = 1 / (5 * 2 ^ 52)" "0 < float_1_2" "float_1_2 < 12 / 10"
  by (simp_all add: float_1_2_def)

lemma float_product_close: "\<bar>float_mul a float_1_2 - a * (12 / 10)\<bar> \<le> \<bar>a\<bar> / 2 ^ 52"
proof -
  have "\<bar>a\<bar> * float_1_2 \<le> \<bar>a\<bar> * (12 / 10)"
    using float_1_2_error(3) by (intro mult_left_mono) simp_all
  then have le: "\<bar>a\<bar> * float_1_2 / 2 ^ 53 \<le> \<bar>a\<bar> * (12 / 10) / 2 ^ 53"
    by (rule divide_right_mono) simp
  have "\<bar>round_double (a * float_1_2) - a * float_1_2\<bar> \<le> \<bar>a * float_1_2\<bar> / 2 ^ 53"
    by (rule round_double_error)
  also have "\<bar>a * float_1_2\<bar> = \<bar>a\<bar> * float_1_2"
    using float_1_2_error(2) by (simp add: abs_mult)
  finally have one: "\<bar>round_double (a * float_1_2) - a * float_1_2\<bar> \<le> \<bar>a\<bar> * (12 / 10) / 2 ^ 53"
    using le by (rule order_trans)
  have "a * float_1_2 - a * (12 / 10) = - (a * (12 / 10 - float_1_2))"
    by (simp add: algebra_simps)
  then have "\<bar>a * float_1_2 - a * (12 / 10)\<bar> = \<bar>a * (12 / 10 - float_1_2)\<bar>"
    by (simp only: abs_minus)
  then have two: "\<bar>a * float_1_2 - a * (12 / 10)\<bar> = \<bar>a\<bar> * (1 / (5 * 2 ^ 52))"
    by (simp only: float_1_2_error(1) abs_mult) simp
  have three: "\<bar>a\<bar> * (12 / 10) / 2 ^ 53 + \<bar>a\<bar> * (1 / (5 * 2 ^ 52)) = \<bar>a\<bar> * (4 / (5 * 2 ^ 52))"
    by simp
  have "\<bar>a\<bar> * (4 / (5 * 2 ^ 52)) \<le> \<bar>a\<bar> * (1 / 2 ^ 52)"
    by (intro mult_left_mono) simp_all
  then have four: "\<bar>a\<bar> * (4 / (5 * 2 ^ 52)) \<le> \<bar>a\<bar> / 2 ^ 52" by simp
  have "\<bar>round_double (a * float_1_2) - a * (12 / 10)\<bar> \<le>
        \<bar>round_double (a * float_1_2) - a * float_1_2\<bar> + \<bar>a * float_1_2 - a * (12 / 10)\<bar>"
    by linarith
  also have "\<dots> \<le> \<bar>a\<bar> * (12 / 10) / 2 ^ 53 + \<bar>a\<bar> * (1 / (5 * 2 ^ 52))"
    using one by (simp only: two add_right_mono)
  also have "\<dots> = \<bar>a\<bar> * (4 / (5 * 2 ^ 52))" by (rule three)
  also have "\<dots> \<le> \<bar>a\<bar> / 2 ^ 52" by (rule four)
  finally show ?thesis by (simp only: float_mul_def)
qed

lemma set_get_sales_prediction:
  "set (get_sales_prediction db now) =
     prediction_of db (now - timedelta 3 0 0) ` set (products db)"
  by (simp add: get_sales_prediction_def Let_def)

lemma prediction_of_fields:
  "pred_product_id (prediction_of db start p) = prod_id p"
  "pred_product_name (prediction_of db start p) = name p"
  "current_stock (prediction_of db start p) = stock p"
  "predicted_demand (prediction_of db start p) =
     np_round (float_mul (avg_daily_sales (prediction_of db start p)) float_1_2)"
  "stock_status (prediction_of db start p) =
     (if stock p < predicted_demand (prediction_of db start p) * 2 then Perlu_Restock else Aman)"
  by (simp_all add: prediction_of_def Let_def)

lemma prediction_of_unsold:
  assumes "joined_quantities db start p = []"
  shows "total_sold_3days (prediction_of db start p) = 0"
    and "avg_daily_sales (prediction_of db start p) = 0"
    and "predicted_demand (prediction_of db start p) = 0"
    and "stock_status (prediction_of db start p) = (if stock p < 0 then Perlu_Restock else Aman)"
  using assms
  by (simp_all add: prediction_of_def Let_def np_round_zero round_double_zero float_mul_def)

lemma joined_quantities_empty:
  "(\<forall>t \<in> set (transactions db). product_id t = prod_id p \<longrightarrow> transaction_date t < start) \<Longrightarrow>
     joined_quantities db start p = []"
  by (auto simp: joined_quantities_def filter_empty_conv)

lemma shop_debt_eval:
  "shop_debt =
     \<lparr>products =
        [\<lparr>prod_id = 1, name = ''Mouse'', category = ''Aksesoris'', price = 850, cost = 650,
          stock = - 1, created_at = 0\<rparr>],
      transactions = [], products_seq = 1, transactions_seq = 0\<rparr>"
  by (simp add: shop_debt_def restock_product_def set_stock_def shop_eval)

text \<open>
  Claim C5 says that a product without a transaction in the last three days gets the
  status "Aman" (OK) whatever its stock is. The store \<open>shop_debt\<close> has no transaction
  and one product, whose stock \<open>restock_product\<close> has set to \<open>- 1\<close>; its row has the
  average 0, the demand 0 and the status "Perlu Restock", since \<open>- 1 < 0 * 2\<close>.
\<close>

theorem unsold_product_counterexample:
  "transactions shop_debt = [] \<and>
   get_sales_prediction shop_debt 0 =
     [\<lparr>pred_product_id = 1, pred_product_name = ''Mouse'', current_stock = - 1,
       total_sold_3days = 0, avg_daily_sales = 0, predicted_demand = 0,
       stock_status = Perlu_Restock\<rparr>]"
  by (simp add: get_sales_prediction_def prediction_of_def joined_quantities_def np_round_zero
        round_double_zero float_mul_def shop_debt_eval)

text \<open>
  Claim C5, amended. For a product \<open>p\<close> of the products table none of whose
  transactions is dated \<open>now - 3 days\<close> or later, \<open>get_sales_prediction\<close> returns a
  row with the product's id and stock, total\_sold\_3days 0, avg\_daily\_sales 0 and
  predicted\_demand 0; its status is "Aman" exactly when the stock is not negative, and
  "Perlu Restock" exactly when it is negative.
\<close>

theorem unsold_product_prediction:
  assumes "p \<in> set (products db)"
    and "\<forall>t \<in> set (transactions db).
           product_id t = prod_id p \<longrightarrow> transaction_date t < now - timedelta 3 0 0"
  shows "prediction_of db (now - timedelta 3 0 0) p \<in> set (get_sales_prediction db now) \<and>
         pred_product_id (prediction_of db (now - timedelta 3 0 0) p) = prod_id p \<and>
         current_stock (prediction_of db (now - timedelta 3 0 0) p) = stock p \<and>
         total_sold_3days (prediction_of db (now - timedelta 3 0 0) p) = 0 \<and>
         avg_daily_sales (prediction_of db (now - timedelta 3 0 0) p) = 0 \<and>
         predicted_demand (prediction_of db (now - timedelta 3 0 0) p) = 0 \<and>
         (stock_status (prediction_of db (now - timedelta 3 0 0) p) = Aman \<longleftrightarrow> 0 \<le> stock p) \<and>
         (stock_status (prediction_of db (now - timedelta 3 0 0) p) = Perlu_Restock \<longleftrightarrow>
            stock p < 0)"
proof -
  have none: "joined_quantities db (now - timedelta 3 0 0) p = []"
    using assms(2) by (rule joined_quantities_empty)
  have "prediction_of db (now - timedelta 3 0 0) p \<in> set (get_sales_prediction db now)"
    using assms(1) by (simp add: set_get_sales_prediction)
  then show ?thesis
    by (simp add: prediction_of_unsold [OF none] prediction_of_fields(1,3))
qed

theorem unsold_product_prediction_witness:
  "products shop_sold \<noteq> [] \<and>
   hd (products shop_sold) \<in> set (products shop_sold) \<and>
   transaction_date ` set (transactions shop_sold) = {50} \<and>
   50 < 400000000000 - timedelta 3 0 0 \<and>
   prediction_of shop_sold (400000000000 - timedelta 3 0 0) (hd (products shop_sold)) \<in>
     set (get_sales_prediction shop_sold 400000000000) \<and>
   current_stock (prediction_of shop_sold (400000000000 - timedelta 3 0 0) (hd (products shop_sold))) = 5 \<and>
   avg_daily_sales (prediction_of shop_sold (400000000000 - timedelta 3 0 0) (hd (products shop_sold))) = 0 \<and>
   predicted_demand (prediction_of shop_sold (400000000000 - timedelta 3 0 0) (hd (products shop_sold))) = 0 \<and>
   stock_status (prediction_of shop_sold (400000000000 - timedelta 3 0 0) (hd (products shop_sold))) = Aman"
proof -
  have p: "hd (products shop_sold) \<in> set (products shop_sold)"
    by (simp add: shop_sold_eval)
  have old: "\<forall>t \<in> set (transactions shop_sold).
      product_id t = prod_id (hd (products shop_sold)) \<longrightarrow>
      transaction_date t < 400000000000 - timedelta 3 0 0"
    by (simp add: shop_sold_eval timedelta_def)
  have st: "stock (hd (products shop_sold)) = 5"
    by (simp add: shop_sold_eval)
  have dates: "transaction_date ` set (transactions shop_sold) = {50}"
    by (simp add: shop_sold_eval)
  have "products shop_sold \<noteq> []" by (simp add: shop_sold_eval)
  moreover have "(50::int) < 400000000000 - timedelta 3 0 0" by (simp add: timedelta_def)
  ultimately show ?thesis
    using unsold_product_prediction [OF p old] p st dates by simp
qed

lemma shop_busy_eval:
  "shop_busy =
     \<lparr>products =
        [\<lparr>prod_id = 1, name = ''Mouse'', category = ''Aksesoris'', price = 850, cost = 650,
          stock = 5, created_at = 0\<rparr>],
      transactions =
        [\<lparr>txn_id = 1, product_id = 1, quantity = 1, total_price = 850, profit = 200,
          transaction_date = 90\<rparr>,
         \<lparr>txn_id = 2, product_id = 1, quantity = 1, total_price = 850, profit = 200,
          transaction_date = 90\<rparr>,
         \<lparr>txn_id = 3, product_id = 1, quantity = 1, total_price = 850, profit = 200,
          transaction_date = 90\<rparr>,
         \<lparr>txn_id = 4, product_id = 1, quantity = 2, total_price = 1700, profit = 400,
          transaction_date = 90\<rparr>],
      products_seq = 1, transactions_seq = 4\<rparr>"
  by (simp add: shop_busy_def add_transaction_with_date_def insert_transaction_result
        next_rowid_def shop_eval)

lemma shop_ties_eval:
  "shop_ties =
     \<lparr>products =
        [\<lparr>prod_id = 1, name = ''Mouse'', category = ''Aksesoris'', price = 850, cost = 650,
          stock = 5, created_at = 0\<rparr>],
      transactions =
        [\<lparr>txn_id = 1, product_id = 1, quantity = 2, total_price = 1700, profit = 400,
          transaction_date = 90\<rparr>,
         \<lparr>txn_id = 2, product_id = 1, quantity = 2, total_price = 1700, profit = 400,
          transaction_date = 90\<rparr>,
         \<lparr>txn_id = 3, product_id = 1, quantity = 2, total_price = 1700, profit = 400,
          transaction_date = 90\<rparr>,
         \<lparr>txn_id = 4, product_id = 1, quantity = 2, total_price = 1700, profit = 400,
          transaction_date = 90\<rparr>,
         \<lparr>txn_id = 5, product_id = 1, quantity = 2, total_price = 1700, profit = 400,
          transaction_date = 90\<rparr>,
         \<lparr>txn_id = 6, product_id = 1, quantity = 2, total_price = 1700, profit = 400,
          transaction_date = 90\<rparr>,
         \<lparr>txn_id = 7, product_id = 1, quantity = 2, total_price = 1700, profit = 400,
          transaction_date = 90\<rparr>,
         \<lparr>txn_id = 8, product_id = 1, quantity = 2, total_price = 1700, profit = 400,
          transaction_date = 90\<rparr>,
         \<lparr>txn_id = 9, product_id = 1, quantity = 2, total_price = 1700, profit = 400,
          transaction_date = 90\<rparr>,
         \<lparr>txn_id = 10, product_id = 1, quantity = 2, total_price = 1700, profit = 400,
          transaction_date = 90\<rparr>,
         \<lparr>txn_id = 11, product_id = 1, quantity = 2, total_price = 1700, profit = 400,
          transaction_date = 90\<rparr>,
         \<lparr>txn_id = 12, product_id = 1, quantity = 3, total_price = 2550, profit = 600,
          transaction_date = 90\<rparr>],
      products_seq = 1, transactions_seq = 12\<rparr>"
  by (simp add: shop_ties_def add_transaction_with_date_def insert_transaction_result
        next_rowid_def shop_eval)

lemma floor_three_halves: "\<lfloor>3 / 2 :: rat\<rfloor> = 1"
  by (rule floor_unique) simp_all

lemma floor_five_halves: "\<lfloor>5 / 2 :: rat\<rfloor> = 2"
  by (rule floor_unique) simp_all

lemma np_round_tie_examples: "np_round (3 / 2) = 2" "np_round (5 / 2) = 2"
  by (simp_all add: np_round_def Let_def floor_three_halves floor_five_halves)

lemma sql_avg_examples:
  "sql_avg [1, 1, 1, 2] = 5 / 4"
  "sql_avg [2, 2, 2, 2, 2, 2, 2, 2, 2, 2, 2, 3] = 4691249611844267 / 2251799813685248"
  by code_simp+

lemma float_product_examples:
  "float_mul (5 / 4) float_1_2 = 3 / 2"
  "float_mul (4691249611844267 / 2251799813685248) float_1_2 = 5 / 2"
  by code_simp+

lemma shop_busy_prediction:
  "get_sales_prediction shop_busy 100 =
     [\<lparr>pred_product_id = 1, pred_product_name = ''Mouse'', current_stock = 5,
       total_sold_3days = 5, avg_daily_sales = 5 / 4, predicted_demand = 2,
       stock_status = Aman\<rparr>]"
  by (simp add: get_sales_prediction_def prediction_of_def joined_quantities_def
        sql_avg_examples float_product_examples np_round_tie_examples shop_busy_eval
        timedelta_def Let_def)

text \<open>
  Claim C6 says that predicted\_demand is avg\_daily\_sales times 1.2 rounded to the
  nearest integer. The product in the store \<open>shop_ties\<close> has twelve sales that sum to
  25. Its row has the average 2.0833333333333335, the double nearest to 25 / 12 and a
  little above it, and the demand 2; the average times 1.2 is above 2.5, so that 3 is the
  nearest integer and 2 is further than one half away. (The product of the doubles is
  the double 2.5, which is rounded to the even 2.) The stock is 5 and the status is
  "Aman"; with the demand 3 it would be "Perlu Restock".
\<close>

theorem predicted_demand_counterexample:
  "get_sales_prediction shop_ties 100 =
     [\<lparr>pred_product_id = 1, pred_product_name = ''Mouse'', current_stock = 5,
       total_sold_3days = 25, avg_daily_sales = 4691249611844267 / 2251799813685248,
       predicted_demand = 2, stock_status = Aman\<rparr>] \<and>
   (5 / 2 :: rat) < 4691249611844267 / 2251799813685248 * (12 / 10) \<and>
   (1 / 2 :: rat) < \<bar>of_int 2 - 4691249611844267 / 2251799813685248 * (12 / 10)\<bar> \<and>
   \<bar>of_int 3 - 4691249611844267 / 2251799813685248 * (12 / 10)\<bar> < (1 / 2 :: rat) \<and>
   (5::int) < 3 * 2"
  by (simp add: get_sales_prediction_def prediction_of_def joined_quantities_def
        sql_avg_examples float_product_examples np_round_tie_examples shop_ties_eval
        timedelta_def Let_def)

text \<open>
  Claim C6, amended. In every row of \<open>get_sales_prediction\<close>, predicted\_demand is
  the product of avg\_daily\_sales and 1.2 as doubles, that is the double nearest to the
  product of the row's average and the double 1.2, rounded to a nearest integer: it
  differs from that double by at most one half, no integer is nearer to it, and when it
  lies half way between two integers the even one is taken. So predicted\_demand differs
  from the exact product of the average and 1.2 by at most one half plus the average
  divided by \<open>2 ^ 52\<close>. The status is "Perlu Restock" exactly when current\_stock is
  less than twice predicted\_demand, and "Aman" otherwise.
\<close>

theorem predicted_demand_and_status:
  assumes "r \<in> set (get_sales_prediction db now)"
  shows "predicted_demand r = np_round (float_mul (avg_daily_sales r) float_1_2) \<and>
         \<bar>of_int (predicted_demand r) - float_mul (avg_daily_sales r) float_1_2\<bar> \<le> 1 / 2 \<and>
         (\<forall>k. \<bar>of_int (predicted_demand r) - float_mul (avg_daily_sales r) float_1_2\<bar> \<le>
               \<bar>of_int k - float_mul (avg_daily_sales r) float_1_2\<bar>) \<and>
         (\<bar>of_int (predicted_demand r) - float_mul (avg_daily_sales r) float_1_2\<bar> = 1 / 2 \<longrightarrow>
            even (predicted_demand r)) \<and>
         \<bar>of_int (predicted_demand r) - avg_daily_sales r * (12 / 10)\<bar> \<le>
           1 / 2 + \<bar>avg_daily_sales r\<bar> / 2 ^ 52 \<and>
         (stock_status r = Perlu_Restock \<longleftrightarrow> current_stock r < predicted_demand r * 2) \<and>
         (stock_status r = Aman \<longleftrightarrow> \<not> current_stock r < predicted_demand r * 2)"
proof -
  let ?P = "float_mul (avg_daily_sales r) float_1_2"
  from assms obtain p where r: "r = prediction_of db (now - timedelta 3 0 0) p"
    by (auto simp: set_get_sales_prediction)
  have d: "predicted_demand r = np_round ?P"
    by (simp add: r prediction_of_fields(4))
  have s: "stock_status r = (if current_stock r < predicted_demand r * 2 then Perlu_Restock else Aman)"
    by (simp only: r prediction_of_fields(3,5))
  have near: "\<bar>of_int (predicted_demand r) - ?P\<bar> \<le> 1 / 2"
    unfolding d by (rule np_round_near)
  have nearest: "\<bar>of_int (predicted_demand r) - ?P\<bar> \<le> \<bar>of_int k - ?P\<bar>" for k
    unfolding d by (rule np_round_nearest)
  have tie: "\<bar>of_int (predicted_demand r) - ?P\<bar> = 1 / 2 \<Longrightarrow> even (predicted_demand r)"
    unfolding d by (rule np_round_tie)
  have "\<bar>of_int (predicted_demand r) - avg_daily_sales r * (12 / 10)\<bar> \<le>
        \<bar>of_int (predicted_demand r) - ?P\<bar> + \<bar>?P - avg_daily_sales r * (12 / 10)\<bar>"
    by simp
  also have "\<dots> \<le> 1 / 2 + \<bar>avg_daily_sales r\<bar> / 2 ^ 52"
    using near float_product_close [of "avg_daily_sales r"] by simp
  finally have close: "\<bar>of_int (predicted_demand r) - avg_daily_sales r * (12 / 10)\<bar> \<le>
           1 / 2 + \<bar>avg_daily_sales r\<bar> / 2 ^ 52" .
  show ?thesis
    using d near nearest tie close s by simp
qed

theorem predicted_demand_and_status_witness:
  "get_sales_prediction shop_busy 100 =
     [\<lparr>pred_product_id = 1, pred_product_name = ''Mouse'', current_stock = 5,
       total_sold_3days = 5, avg_daily_sales = 5 / 4, predicted_demand = 2,
       stock_status = Aman\<rparr>] \<and>
   (2::int) = np_round (float_mul (5 / 4) float_1_2) \<and>
   \<bar>of_int 2 - float_mul (5 / 4) float_1_2\<bar> = (1 / 2 :: rat) \<and> even (2::int) \<and>
   \<bar>of_int 2 - 5 / 4 * (12 / 10)\<bar> \<le> (1 / 2 + \<bar>5 / 4\<bar> / 2 ^ 52 :: rat) \<and>
   \<not> (5::int) < 2 * 2"
proof -
  let ?r = "\<lparr>pred_product_id = 1, pred_product_name = ''Mouse'', current_stock = 5,
       total_sold_3days = 5, avg_daily_sales = 5 / 4, predicted_demand = 2,
       stock_status = Aman\<rparr>"
  have "?r \<in> set (get_sales_prediction shop_busy 100)"
    by (simp add: shop_busy_prediction)
  from predicted_demand_and_status [OF this] show ?thesis
    by (simp add: shop_busy_prediction float_product_examples)
qed

section \<open>The dummy data generator\<close>

lemma randint_range:
  assumes "a \<le> b"
  shows "\<exists>v. randint a b w = Inr (v, w\<lparr>drawn := Suc (drawn w)\<rparr>) \<and> a \<le> v \<and> v \<le> b"
proof -
  have pos: "0 < b - a + 1" using assms by simp
  have "0 \<le> int (draws w (drawn w)) mod (b - a + 1)"
    using pos by (rule pos_mod_sign)
  moreover have "int (draws w (drawn w)) mod (b - a + 1) < b - a + 1"
    using pos by (rule pos_mod_bound)
  ultimately show ?thesis using assms by (simp add: randint_def)
qed

lemma choice_member:
  assumes "xs \<noteq> []"
  shows "\<exists>x. choice xs w = Inr (x, w\<lparr>drawn := Suc (drawn w)\<rparr>) \<and> x \<in> set xs"
  using assms by (simp add: choice_def)

text \<open>What one pass through the body of the inner loop does.\<close>

lemma sell_random_cases:
  assumes "product_ids \<noteq> []"
  shows "\<exists>i \<in> set product_ids.
     ((get_product_by_id db i = None \<or> (\<exists>p. get_product_by_id db i = Some p \<and> stock p \<le> 0)) \<and>
      sell_random d product_ids (c, db, w) = Inr (False, c, db, w\<lparr>drawn := Suc (drawn w)\<rparr>)) \<or>
     (\<exists>p qty h m.
        get_product_by_id db i = Some p \<and> 1 \<le> qty \<and> qty \<le> 3 \<and> qty \<le> stock p \<and>
        8 \<le> h \<and> h \<le> 20 \<and> 0 \<le> m \<and> m \<le> 59 \<and>
        sell_random d product_ids (c, db, w) =
          Inr (50 \<le> c + 1, c + 1,
               snd (update_stock
                      (add_transaction_with_date db i qty (price p * of_int qty)
                         ((price p - cost p) * of_int qty)
                         (clock w (readings w) - timedelta d h m)) i qty),
               w\<lparr>drawn := Suc (Suc (Suc (Suc (drawn w)))), readings := Suc (readings w)\<rparr>))"
proof -
  let ?w1 = "w\<lparr>drawn := Suc (drawn w)\<rparr>"
  from choice_member [OF assms, of w] obtain i
    where ch: "choice product_ids w = Inr (i, ?w1)" and i: "i \<in> set product_ids"
    by blast
  show ?thesis
  proof (cases "get_product_by_id db i")
    case None
    then have "sell_random d product_ids (c, db, w) = Inr (False, c, db, ?w1)"
      by (simp add: sell_random_def ch)
    then show ?thesis using None i by blast
  next
    case (Some p)
    show ?thesis
    proof (cases "0 < stock p")
      case False
      then have "sell_random d product_ids (c, db, w) = Inr (False, c, db, ?w1)"
        using Some by (simp add: sell_random_def ch)
      moreover have "stock p \<le> 0" using False by simp
      ultimately show ?thesis using Some i by blast
    next
      case True
      then have "1 \<le> min 3 (stock p)" by simp
      from randint_range [OF this, of ?w1] obtain qty
        where q: "randint 1 (min 3 (stock p)) ?w1 = Inr (qty, ?w1\<lparr>drawn := Suc (drawn ?w1)\<rparr>)"
          and q1: "1 \<le> qty" and q2: "qty \<le> min 3 (stock p)"
        by blast
      let ?w2 = "?w1\<lparr>drawn := Suc (drawn ?w1)\<rparr>"
      let ?w3 = "?w2\<lparr>readings := Suc (readings ?w2)\<rparr>"
      have now: "datetime_now ?w2 = (clock w (readings w), ?w3)"
        by (simp add: datetime_now_def)
      have "(8::int) \<le> 20" by simp
      from randint_range [OF this, of ?w3] obtain h
        where h: "randint 8 20 ?w3 = Inr (h, ?w3\<lparr>drawn := Suc (drawn ?w3)\<rparr>)"
          and h1: "8 \<le> h" and h2: "h \<le> 20"
        by blast
      let ?w4 = "?w3\<lparr>drawn := Suc (drawn ?w3)\<rparr>"
      have "(0::int) \<le> 59" by simp
      from randint_range [OF this, of ?w4] obtain m
        where m: "randint 0 59 ?w4 = Inr (m, ?w4\<lparr>drawn := Suc (drawn ?w4)\<rparr>)"
          and m1: "0 \<le> m" and m2: "m \<le> 59"
        by blast
      have w5: "?w4\<lparr>drawn := Suc (drawn ?w4)\<rparr> =
          w\<lparr>drawn := Suc (Suc (Suc (Suc (drawn w)))), readings := Suc (readings w)\<rparr>"
        by simp
      have "sell_random d product_ids (c, db, w) =
          Inr (50 \<le> c + 1, c + 1,
               snd (update_stock
                      (add_transaction_with_date db i qty (price p * of_int qty)
                         ((price p - cost p) * of_int qty)
                         (clock w (readings w) - timedelta d h m)) i qty),
               w\<lparr>drawn := Suc (Suc (Suc (Suc (drawn w)))), readings := Suc (readings w)\<rparr>)"
        unfolding sell_random_def
        by (simp only: prod.case ch sum.case Some option.case True if_True q now h m Let_def w5)
      moreover have "qty \<le> 3" "qty \<le> stock p" using q2 by simp_all
      ultimately show ?thesis using Some i q1 h1 h2 m1 m2 by blast
    qed
  qed
qed

lemma update_stock_frame:
  "map listing (products (snd (update_stock db i q))) = map listing (products db)"
  "transactions (snd (update_stock db i q)) = transactions db"
  "products_seq (snd (update_stock db i q)) = products_seq db"
  by (auto simp: update_stock_def set_stock_def listing_def Let_def split: option.splits)

lemma add_transaction_with_date_frame:
  "products (add_transaction_with_date db i qty tp pf date) = products db"
  "products_seq (add_transaction_with_date db i qty tp pf date) = products_seq db"
  "transactions (add_transaction_with_date db i qty tp pf date) =
     transactions db @
       [\<lparr>txn_id = next_rowid (transactions_seq db) (map txn_id (transactions db)),
         product_id = i, quantity = qty, total_price = tp, profit = pf,
         transaction_date = date\<rparr>]"
  by (simp_all add: add_transaction_with_date_def insert_transaction_result)

lemma sell_random_seeding:
  assumes ids: "product_ids \<noteq> []"
    and inv: "seeding db0 c0 clk s"
    and d: "0 \<le> d" "d \<le> 7"
  shows "\<exists>s'. seeding db0 c0 clk s' \<and>
           (sell_random d product_ids s = Inr (False, s') \<and> fst s' = fst s \<or>
            sell_random d product_ids s = Inr (50 \<le> fst s', s') \<and> fst s' = fst s + 1)"
proof -
  obtain c db w where s: "s = (c, db, w)" by (cases s)
  from inv s obtain new where
    clk: "clock w = clk" and ps: "map listing (products db) = map listing (products db0)"
    and sq: "products_seq db = products_seq db0"
    and ts: "transactions db = transactions db0 @ new" and len: "int (length new) = c - c0"
    and dates: "\<forall>t \<in> set new. backdated clk (transaction_date t)"
    by (auto simp: seeding_def)
  from sell_random_cases [OF ids, of db d c w] obtain i where
    cases: "((get_product_by_id db i = None \<or> (\<exists>p. get_product_by_id db i = Some p \<and> stock p \<le> 0)) \<and>
      sell_random d product_ids (c, db, w) = Inr (False, c, db, w\<lparr>drawn := Suc (drawn w)\<rparr>)) \<or>
     (\<exists>p qty h m.
        get_product_by_id db i = Some p \<and> 1 \<le> qty \<and> qty \<le> 3 \<and> qty \<le> stock p \<and>
        8 \<le> h \<and> h \<le> 20 \<and> 0 \<le> m \<and> m \<le> 59 \<and>
        sell_random d product_ids (c, db, w) =
          Inr (50 \<le> c + 1, c + 1,
               snd (update_stock
                      (add_transaction_with_date db i qty (price p * of_int qty)
                         ((price p - cost p) * of_int qty)
                         (clock w (readings w) - timedelta d h m)) i qty),
               w\<lparr>drawn := Suc (Suc (Suc (Suc (drawn w)))), readings := Suc (readings w)\<rparr>))"
    by blast
  then show ?thesis
  proof
    assume a: "(get_product_by_id db i = None \<or> (\<exists>p. get_product_by_id db i = Some p \<and> stock p \<le> 0)) \<and>
      sell_random d product_ids (c, db, w) = Inr (False, c, db, w\<lparr>drawn := Suc (drawn w)\<rparr>)"
    have "seeding db0 c0 clk (c, db, w\<lparr>drawn := Suc (drawn w)\<rparr>)"
      using clk ps sq ts len dates by (auto simp: seeding_def)
    then show ?thesis using a s
      by (intro exI [of _ "(c, db, w\<lparr>drawn := Suc (drawn w)\<rparr>)"]) simp
  next
    assume "\<exists>p qty h m.
        get_product_by_id db i = Some p \<and> 1 \<le> qty \<and> qty \<le> 3 \<and> qty \<le> stock p \<and>
        8 \<le> h \<and> h \<le> 20 \<and> 0 \<le> m \<and> m \<le> 59 \<and>
        sell_random d product_ids (c, db, w) =
          Inr (50 \<le> c + 1, c + 1,
               snd (update_stock
                      (add_transaction_with_date db i qty (price p * of_int qty)
                         ((price p - cost p) * of_int qty)
                         (clock w (readings w) - timedelta d h m)) i qty),
               w\<lparr>drawn := Suc (Suc (Suc (Suc (drawn w)))), readings := Suc (readings w)\<rparr>)"
    then obtain p :: product and qty h m where
      h: "8 \<le> h" "h \<le> 20" and m: "0 \<le> m" "m \<le> 59"
      and run: "sell_random d product_ids (c, db, w) =
          Inr (50 \<le> c + 1, c + 1,
               snd (update_stock
                      (add_transaction_with_date db i qty (price p * of_int qty)
                         ((price p - cost p) * of_int qty)
                         (clock w (readings w) - timedelta d h m)) i qty),
               w\<lparr>drawn := Suc (Suc (Suc (Suc (drawn w)))), readings := Suc (readings w)\<rparr>)"
      by blast
    let ?date = "clock w (readings w) - timedelta d h m"
    let ?db1 = "add_transaction_with_date db i qty (price p * of_int qty)
                         ((price p - cost p) * of_int qty) ?date"
    let ?db2 = "snd (update_stock ?db1 i qty)"
    let ?t = "\<lparr>txn_id = next_rowid (transactions_seq db) (map txn_id (transactions db)),
         product_id = i, quantity = qty, total_price = price p * of_int qty,
         profit = (price p - cost p) * of_int qty, transaction_date = ?date\<rparr>"
    have bdate: "backdated clk ?date"
      unfolding backdated_def using d h m clk by blast
    have ps2: "map listing (products ?db2) = map listing (products db0)"
      by (simp add: update_stock_frame add_transaction_with_date_frame ps)
    have sq2: "products_seq ?db2 = products_seq db0"
      by (simp add: update_stock_frame add_transaction_with_date_frame sq)
    have ts2: "transactions ?db2 = transactions db0 @ (new @ [?t])"
      by (simp add: update_stock_frame add_transaction_with_date_frame ts)
    have len2: "int (length (new @ [?t])) = c + 1 - c0" using len by simp
    have dates2: "\<forall>t \<in> set (new @ [?t]). backdated clk (transaction_date t)"
      using dates bdate by simp
    have "seeding db0 c0 clk (c + 1, ?db2,
        w\<lparr>drawn := Suc (Suc (Suc (Suc (drawn w)))), readings := Suc (readings w)\<rparr>)"
      unfolding seeding_def prod.case using clk ps2 sq2 ts2 len2 dates2
      by (intro conjI exI [of _ "new @ [?t]"]) simp_all
    then show ?thesis using run s
      by (intro exI [of _ "(c + 1, ?db2,
        w\<lparr>drawn := Suc (Suc (Suc (Suc (drawn w)))), readings := Suc (readings w)\<rparr>)"]) simp
  qed
qed


lemma seeding_drawn:
  "seeding db0 c0 clk (c, db, w) \<Longrightarrow> seeding db0 c0 clk (c, db, w\<lparr>drawn := k\<rparr>)"
  by (simp add: seeding_def)

lemma sell_daily_seeding:
  assumes ids: "product_ids \<noteq> []" and d: "0 \<le> d" "d \<le> 7"
  shows "seeding db0 c0 clk s \<Longrightarrow> fst s < 50 \<Longrightarrow>
           \<exists>s'. sell_daily n d product_ids s = Inr s' \<and> seeding db0 c0 clk s' \<and> fst s' \<le> 50"
proof (induction n arbitrary: s)
  case 0
  then show ?case by simp
next
  case (Suc n)
  from sell_random_seeding [OF ids Suc.prems(1) d] obtain s1 where
    inv: "seeding db0 c0 clk s1"
    and step: "sell_random d product_ids s = Inr (False, s1) \<and> fst s1 = fst s \<or>
            sell_random d product_ids s = Inr (50 \<le> fst s1, s1) \<and> fst s1 = fst s + 1"
    by blast
  from step show ?case
  proof
    assume a: "sell_random d product_ids s = Inr (False, s1) \<and> fst s1 = fst s"
    then have "fst s1 < 50" using Suc.prems(2) by simp
    from Suc.IH [OF inv this] show ?thesis using a by simp
  next
    assume a: "sell_random d product_ids s = Inr (50 \<le> fst s1, s1) \<and> fst s1 = fst s + 1"
    show ?thesis
    proof (cases "50 \<le> fst s1")
      case True
      then have "fst s1 \<le> 50" using a Suc.prems(2) by simp
      then show ?thesis using a True inv by simp
    next
      case False
      then have "fst s1 < 50" by simp
      from Suc.IH [OF inv this] show ?thesis using a False by simp
    qed
  qed
qed

lemma sell_days_seeding:
  assumes ids: "product_ids \<noteq> []"
  shows "\<forall>d \<in> set days. 0 \<le> d \<and> d \<le> 7 \<Longrightarrow> seeding db0 c0 clk s \<Longrightarrow> fst s < 50 \<Longrightarrow>
           \<exists>s'. sell_days days product_ids s = Inr s' \<and> seeding db0 c0 clk s' \<and> fst s' \<le> 50"
proof (induction days arbitrary: s)
  case Nil
  then show ?case by simp
next
  case (Cons d days)
  obtain c db w where s: "s = (c, db, w)" by (cases s)
  have d: "0 \<le> d" "d \<le> 7" using Cons.prems(1) by simp_all
  have "(5::int) \<le> 10" by simp
  from randint_range [OF this, of w] obtain daily where
    r: "randint 5 10 w = Inr (daily, w\<lparr>drawn := Suc (drawn w)\<rparr>)" by blast
  have inv1: "seeding db0 c0 clk (c, db, w\<lparr>drawn := Suc (drawn w)\<rparr>)"
    using Cons.prems(2) s by (simp add: seeding_drawn)
  have "fst (c, db, w\<lparr>drawn := Suc (drawn w)\<rparr>) < 50" using Cons.prems(3) s by simp
  from sell_daily_seeding [OF ids d inv1 this, of "nat daily"] obtain s1 where
    run: "sell_daily (nat daily) d product_ids (c, db, w\<lparr>drawn := Suc (drawn w)\<rparr>) = Inr s1"
    and inv2: "seeding db0 c0 clk s1" and le: "fst s1 \<le> 50"
    by blast
  show ?case
  proof (cases "50 \<le> fst s1")
    case True
    then show ?thesis using s r run inv2 le by simp
  next
    case False
    then have "fst s1 < 50" by simp
    moreover have "\<forall>d \<in> set days. 0 \<le> d \<and> d \<le> 7" using Cons.prems(1) by simp
    ultimately obtain s2 where
      "sell_days days product_ids s1 = Inr s2" "seeding db0 c0 clk s2" "fst s2 \<le> 50"
      using Cons.IH [OF _ inv2] by blast
    then show ?thesis using s r run False by simp
  qed
qed

lemma add_product_result:
  "add_product db stamp nm cat pr co st =
     (next_rowid (products_seq db) (map prod_id (products db)),
      db\<lparr>products := products db @
           [\<lparr>prod_id = next_rowid (products_seq db) (map prod_id (products db)),
             name = nm, category = cat, price = pr, cost = co, stock = st,
             created_at = stamp\<rparr>],
         products_seq := next_rowid (products_seq db) (map prod_id (products db))\<rparr>)"
  by (simp add: add_product_def Let_def)

lemma next_rowid_greater: "x \<in> set ids \<Longrightarrow> x < next_rowid seq ids"
  using fold_max_upper [of x ids seq] by (simp add: next_rowid_def)

lemma add_product_sorted:
  assumes "sorted (map prod_id (products db))"
  shows "sorted (map prod_id (products (snd (add_product db stamp nm cat pr co st))))"
proof -
  have "\<forall>x \<in> set (map prod_id (products db)).
          x \<le> next_rowid (products_seq db) (map prod_id (products db))"
    using next_rowid_greater [of _ "map prod_id (products db)" "products_seq db"]
    by (auto intro: less_imp_le)
  then show ?thesis using assms by (simp add: add_product_result sorted_append)
qed

lemma insert_products_spec:
  "\<exists>rows sq. insert_products catalog product_ids db w =
            (product_ids @ map prod_id rows,
             db\<lparr>products := products db @ rows, products_seq := sq\<rparr>,
             w\<lparr>stamped := stamped w + length catalog\<rparr>) \<and>
          map entry rows = catalog \<and>
          (sorted (map prod_id (products db)) \<longrightarrow> sorted (map prod_id (products db @ rows)))"
proof (induction catalog arbitrary: product_ids db w)
  case Nil
  show ?case by (intro exI [of _ "[]"] exI [of _ "products_seq db"]) simp
next
  case (Cons e catalog)
  obtain nm cat pr co st where e: "e = (nm, cat, pr, co, st)" by (cases e)
  let ?i = "next_rowid (products_seq db) (map prod_id (products db))"
  let ?row = "\<lparr>prod_id = ?i, name = nm, category = cat, price = pr, cost = co, stock = st,
               created_at = stamps w (stamped w)\<rparr>"
  let ?db1 = "db\<lparr>products := products db @ [?row], products_seq := ?i\<rparr>"
  let ?w1 = "w\<lparr>stamped := Suc (stamped w)\<rparr>"
  have step: "insert_products (e # catalog) product_ids db w =
              insert_products catalog (product_ids @ [?i]) ?db1 ?w1"
    by (simp add: e current_timestamp_def add_product_result)
  from Cons.IH [of "product_ids @ [?i]" ?db1 ?w1] obtain rows sq where
    run: "insert_products catalog (product_ids @ [?i]) ?db1 ?w1 =
            ((product_ids @ [?i]) @ map prod_id rows,
             ?db1\<lparr>products := products ?db1 @ rows, products_seq := sq\<rparr>,
             ?w1\<lparr>stamped := stamped ?w1 + length catalog\<rparr>)"
    and entries: "map entry rows = catalog"
    and sorted1: "sorted (map prod_id (products ?db1)) \<longrightarrow>
                  sorted (map prod_id (products ?db1 @ rows))"
    by blast
  have sorted0: "sorted (map prod_id (products db)) \<longrightarrow> sorted (map prod_id (products ?db1))"
    using add_product_sorted [of db "stamps w (stamped w)" nm cat pr co st]
    by (simp add: add_product_result)
  have a: "insert_products (e # catalog) product_ids db w =
            (product_ids @ map prod_id (?row # rows),
             db\<lparr>products := products db @ (?row # rows), products_seq := sq\<rparr>,
             w\<lparr>stamped := stamped w + length (e # catalog)\<rparr>)"
    unfolding step by (subst run) simp
  have b: "map entry (?row # rows) = e # catalog"
    using entries by (simp add: e entry_def)
  have c: "sorted (map prod_id (products db)) \<longrightarrow>
           sorted (map prod_id (products db @ (?row # rows)))"
    using sorted0 sorted1 by simp
  show ?case
    by (rule exI [of _ "?row # rows"], rule exI [of _ sq]) (intro conjI; (rule a b c))
qed

lemma label_of_listing: "map listing ps = map listing qs \<Longrightarrow> map label ps = map label qs"
proof -
  assume a: "map listing ps = map listing qs"
  have "label = (\<lambda>(i, n, c, p, co, t). (n, c, p, co)) \<circ> listing"
    by (auto simp: label_def listing_def)
  then have "map label ps = map (\<lambda>(i, n, c, p, co, t). (n, c, p, co)) (map listing ps)"
    "map label qs = map (\<lambda>(i, n, c, p, co, t). (n, c, p, co)) (map listing qs)"
    by simp_all
  then show ?thesis using a by simp
qed

lemma ids_of_listing: "map listing ps = map listing qs \<Longrightarrow> map prod_id ps = map prod_id qs"
proof -
  assume a: "map listing ps = map listing qs"
  have "prod_id = fst \<circ> listing"
    by (auto simp: listing_def)
  then have "map prod_id ps = map fst (map listing ps)" "map prod_id qs = map fst (map listing qs)"
    by simp_all
  then show ?thesis using a by simp
qed

lemma label_of_entry:
  "map entry rows = catalog \<Longrightarrow>
     map label rows = map (\<lambda>(n, c, p, co, s). (n, c, p, co)) catalog"
  by (induction rows arbitrary: catalog) (auto simp: entry_def label_def)

lemma generate_dummy_data_spec:
  "\<exists>db1 w1 (rows :: product list) new.
     generate_dummy_data db w = Inr (True, db1, w1) \<and>
     length rows = 10 \<and>
     map prod_id (products db1) = map prod_id (products db) @ map prod_id rows \<and>
     map label (products db1) =
       map label (products db) @ map (\<lambda>(n, c, p, co, s). (n, c, p, co)) products_data \<and>
     (sorted (map prod_id (products db)) \<longrightarrow> sorted (map prod_id (products db1))) \<and>
     transactions db1 = transactions db @ new \<and> length new \<le> 50 \<and>
     (\<forall>t \<in> set new. backdated (clock w) (transaction_date t)) \<and>
     map prod_id (products db1) =
       map prod_id (products (fst (snd (insert_products products_data [] db w)))) \<and>
     products_seq db1 = products_seq (fst (snd (insert_products products_data [] db w)))"
proof -
  let ?r = "insert_products products_data [] db w"
  from insert_products_spec [of products_data "[]" db w] obtain rows sq0 where
    ins: "?r = ([] @ map prod_id rows,
             db\<lparr>products := products db @ rows, products_seq := sq0\<rparr>,
             w\<lparr>stamped := stamped w + length products_data\<rparr>)"
    and entries: "map entry rows = products_data"
    and srt: "sorted (map prod_id (products db)) \<longrightarrow> sorted (map prod_id (products db @ rows))"
    by blast
  let ?ids = "map prod_id rows"
  let ?db0 = "db\<lparr>products := products db @ rows, products_seq := sq0\<rparr>"
  let ?w0 = "w\<lparr>stamped := stamped w + length products_data\<rparr>"
  have "length (map entry rows) = length products_data" using entries by simp
  then have len: "length rows = 10" by (simp add: products_data_def)
  then have ids: "?ids \<noteq> []" by auto
  have inv0: "seeding ?db0 0 (clock w) (0, ?db0, ?w0)"
    by (simp add: seeding_def)
  have days: "\<forall>d \<in> set [7, 6, 5, 4, 3, 2, 1, 0 :: int]. 0 \<le> d \<and> d \<le> 7" by simp
  have "fst (0 :: int, ?db0, ?w0) < 50" by simp
  from sell_days_seeding [OF ids days inv0 this] obtain s1 where
    run: "sell_days [7, 6, 5, 4, 3, 2, 1, 0] ?ids (0, ?db0, ?w0) = Inr s1"
    and inv1: "seeding ?db0 0 (clock w) s1" and le: "fst s1 \<le> 50"
    by blast
  obtain c db1 w1 where s1: "s1 = (c, db1, w1)" by (cases s1)
  from inv1 s1 obtain new where
    ps: "map listing (products db1) = map listing (products ?db0)"
    and sq: "products_seq db1 = products_seq ?db0"
    and ts: "transactions db1 = transactions ?db0 @ new" and c: "int (length new) = c"
    and dates: "\<forall>t \<in> set new. backdated (clock w) (transaction_date t)"
    by (auto simp: seeding_def)
  have out: "generate_dummy_data db w = Inr (True, db1, w1)"
    unfolding generate_dummy_data_def
    by (subst ins) (simp only: append_Nil prod.case run s1 sum.case)
  have idl: "map prod_id (products db1) = map prod_id (products db) @ map prod_id rows"
    using ids_of_listing [OF ps] by simp
  have lab: "map label (products db1) =
       map label (products db) @ map (\<lambda>(n, c, p, co, s). (n, c, p, co)) products_data"
    using label_of_listing [OF ps] label_of_entry [OF entries] by simp
  have srt1: "sorted (map prod_id (products db)) \<longrightarrow> sorted (map prod_id (products db1))"
    using srt idl by simp
  have ts1: "transactions db1 = transactions db @ new" using ts by simp
  have n50: "length new \<le> 50" using c le s1 by simp
  have db0: "fst (snd ?r) = ?db0" by (simp add: ins)
  have idl0: "map prod_id (products db1) = map prod_id (products (fst (snd ?r)))"
    using ids_of_listing [OF ps] by (simp only: db0)
  have sq1: "products_seq db1 = products_seq (fst (snd ?r))"
    using sq by (simp only: db0)
  show ?thesis
    by (rule exI [of _ db1], rule exI [of _ w1], rule exI [of _ rows], rule exI [of _ new])
      (intro conjI; (rule out len idl lab srt1 ts1 n50 dates idl0 sq1))
qed

lemma backdated_window:
  assumes "backdated clk date" and "\<forall>k. lo \<le> clk k \<and> clk k \<le> hi"
  shows "lo - timedelta 8 0 0 < date \<and> date \<le> hi - timedelta 0 8 0"
proof -
  from assms(1) obtain k d h m where
    date: "date = clk k - timedelta d h m"
    and r: "0 \<le> d" "d \<le> 7" "8 \<le> h" "h \<le> 20" "0 \<le> m" "m \<le> 59"
    unfolding backdated_def by blast
  have "lo \<le> clk k" "clk k \<le> hi" using assms(2) by simp_all
  then show ?thesis using r by (simp add: date timedelta_def)
qed

lemma generate_dummy_data_on_empty:
  assumes "products db = []"
  shows "\<exists>db1 w1 new.
     generate_dummy_data db w = Inr (True, db1, w1) \<and>
     map label (get_products db1) = map (\<lambda>(n, c, p, co, s). (n, c, p, co)) products_data \<and>
     length (get_products db1) = 10 \<and>
     transactions db1 = transactions db @ new \<and> length new \<le> 50 \<and>
     (\<forall>t \<in> set new. backdated (clock w) (transaction_date t))"
proof -
  from generate_dummy_data_spec [of db w] obtain db1 w1 new and rows :: "product list" where
    run: "generate_dummy_data db w = Inr (True, db1, w1)"
    and len: "length rows = 10"
    and ids: "map prod_id (products db1) = map prod_id (products db) @ map prod_id rows"
    and lab: "map label (products db1) =
       map label (products db) @ map (\<lambda>(n, c, p, co, s). (n, c, p, co)) products_data"
    and srt: "sorted (map prod_id (products db)) \<longrightarrow> sorted (map prod_id (products db1))"
    and ts: "transactions db1 = transactions db @ new" and n50: "length new \<le> 50"
    and dates: "\<forall>t \<in> set new. backdated (clock w) (transaction_date t)"
    by blast
  have "sorted (map prod_id (products db1))" using srt assms by simp
  then have same: "get_products db1 = products db1"
    by (simp add: get_products_def sort_key_id_if_sorted)
  have "length (map prod_id (products db1)) = length (map prod_id (products db) @ map prod_id rows)"
    by (simp only: ids)
  then have ten: "length (products db1) = 10" using len assms by simp
  show ?thesis
    using run lab ten ts n50 dates assms by (simp add: same)
qed

section \<open>The dates of the dummy transactions\<close>

lemma sell_random_sale:
  assumes ids: "product_ids \<noteq> []"
    and p: "get_product_by_id db (product_ids ! (draws w (drawn w) mod length product_ids)) = Some p"
    and st: "0 < stock p"
  shows "sell_random d product_ids (c, db, w) =
     (let i = product_ids ! (draws w (drawn w) mod length product_ids);
          qty = 1 + int (draws w (Suc (drawn w))) mod (min 3 (stock p) - 1 + 1);
          hours = 8 + int (draws w (Suc (Suc (drawn w)))) mod (20 - 8 + 1);
          minutes = 0 + int (draws w (Suc (Suc (Suc (drawn w))))) mod (59 - 0 + 1) in
      Inr (50 \<le> c + 1, c + 1,
           snd (update_stock
                  (add_transaction_with_date db i qty (price p * of_int qty)
                     ((price p - cost p) * of_int qty)
                     (clock w (readings w) - timedelta d hours minutes)) i qty),
           w\<lparr>drawn := Suc (Suc (Suc (Suc (drawn w)))), readings := Suc (readings w)\<rparr>))"
proof -
  have "\<not> min 3 (stock p) < 1" using st by simp
  then show ?thesis
    using ids p st
    by (simp add: sell_random_def choice_def randint_def datetime_now_def Let_def)
qed

lemma insert_products_step:
  "insert_products ((nm, cat, pr, co, st) # rest) product_ids db w =
     insert_products rest
       (product_ids @ [next_rowid (products_seq db) (map prod_id (products db))])
       (db\<lparr>products := products db @
             [\<lparr>prod_id = next_rowid (products_seq db) (map prod_id (products db)),
               name = nm, category = cat, price = pr, cost = co, stock = st,
               created_at = stamps w (stamped w)\<rparr>],
           products_seq := next_rowid (products_seq db) (map prod_id (products db))\<rparr>)
       (w\<lparr>stamped := Suc (stamped w)\<rparr>)"
  by (simp add: current_timestamp_def add_product_result)

lemma morning_catalog:
  "insert_products products_data [] (create_tables None) morning =
     ([1, 2, 3, 4, 5, 6, 7, 8, 9, 10], morning_store, morning\<lparr>stamped := 10\<rparr>)"
  unfolding products_data_def
  by (simp add: insert_products_step next_rowid_def morning_def morning_store_def
        del: insert_products.simps(2))


lemma morning_first_sale:
  "sell_random 7 [1, 2, 3, 4, 5, 6, 7, 8, 9, 10] (0, morning_store, morning\<lparr>stamped := 10, drawn := 1\<rparr>) =
     Inr (False, 1,
          snd (update_stock
                 (add_transaction_with_date morning_store 1 1 15000000 2000000 1727391600000000)
                 1 1),
          morning\<lparr>stamped := 10, drawn := 5, readings := 1\<rparr>)"
proof -
  let ?w = "morning\<lparr>stamped := 10, drawn := 1\<rparr>"
  let ?ids = "[1, 2, 3, 4, 5, 6, 7, 8, 9, 10 :: int]"
  let ?p = "\<lparr>prod_id = 1, name = ''Laptop Asus ROG'', category = ''Elektronik'',
            price = 15000000, cost = 13000000, stock = 15, created_at = 1728000000000000\<rparr>"
  have ids: "?ids \<noteq> []" by simp
  have p: "get_product_by_id morning_store (?ids ! (draws ?w (drawn ?w) mod length ?ids)) = Some ?p"
    by (simp add: morning_def morning_store_def get_product_by_id_def)
  have st: "0 < stock ?p" by simp
  from sell_random_sale [OF ids p st, of 7 0] show ?thesis
    by (simp add: morning_def timedelta_def)
qed

text \<open>
  Claim C8 says that every transaction of the generator is dated within the trailing 8
  calendar days. In the run \<open>morning\<close> on a new file the generator returns, and the
  first transaction it has stored is dated 1727391600000000, which is 23:00:00 of day
  19992: the clock reading of 07:00:00 of day 20000 minus 7 days and 8 hours. The
  trailing 8 calendar days of day 20000 are the days 19993 to 20000.
\<close>

theorem seeded_date_outside_window:
  "\<exists>db1 w1 later.
     generate_dummy_data (create_tables None) morning = Inr (True, db1, w1) \<and>
     transactions db1 =
       \<lparr>txn_id = 1, product_id = 1, quantity = 1, total_price = 15000000, profit = 2000000,
        transaction_date = 1727391600000000\<rparr> # later \<and>
     calendar_date 1727391600000000 = 19992 \<and>
     calendar_date (clock morning 0) = 20000"
proof -
  let ?ids = "[1, 2, 3, 4, 5, 6, 7, 8, 9, 10 :: int]"
  let ?t = "\<lparr>txn_id = 1, product_id = 1, quantity = 1, total_price = 15000000,
             profit = 2000000, transaction_date = 1727391600000000\<rparr>"
  let ?db1 = "snd (update_stock
                 (add_transaction_with_date morning_store 1 1 15000000 2000000 1727391600000000)
                 1 1)"
  let ?w1 = "morning\<lparr>stamped := 10, drawn := 5, readings := 1\<rparr>"
  have ids: "?ids \<noteq> []" by simp
  have ts1: "transactions ?db1 = [?t]"
    by (simp add: update_stock_frame add_transaction_with_date_frame morning_store_def
          next_rowid_def)
  have inv: "seeding ?db1 1 (clock morning) (1, ?db1, ?w1)"
    by (simp add: seeding_def)
  have d7: "(0::int) \<le> 7" "(7::int) \<le> 7" by simp_all
  have "fst (1 :: int, ?db1, ?w1) < 50" by simp
  from sell_daily_seeding [OF ids d7 inv this, of 4] obtain s2 where
    day7: "sell_daily 4 7 ?ids (1, ?db1, ?w1) = Inr s2"
    and inv2: "seeding ?db1 1 (clock morning) s2" and le2: "fst s2 \<le> 50"
    by blast
  have five: "randint 5 10 (morning\<lparr>stamped := 10\<rparr>) =
      Inr (5, morning\<lparr>stamped := 10, drawn := 1\<rparr>)"
    by (simp add: randint_def morning_def)
  have "nat 5 = Suc 4" by simp
  then have daily: "sell_daily (nat 5) 7 ?ids (0, morning_store, morning\<lparr>stamped := 10, drawn := 1\<rparr>) =
      Inr s2"
    by (simp only: sell_daily.simps morning_first_sale sum.case prod.case if_False day7)
  have rest: "\<exists>s3. (if 50 \<le> fst s2 then Inr s2 else sell_days [6, 5, 4, 3, 2, 1, 0] ?ids s2) = Inr s3 \<and>
      seeding ?db1 1 (clock morning) s3"
  proof (cases "50 \<le> fst s2")
    case True
    then show ?thesis using inv2 by simp
  next
    case False
    then have lt: "fst s2 < 50" by simp
    have days: "\<forall>d \<in> set [6, 5, 4, 3, 2, 1, 0 :: int]. 0 \<le> d \<and> d \<le> 7" by simp
    from sell_days_seeding [OF ids days inv2 lt] obtain s3 where
      "sell_days [6, 5, 4, 3, 2, 1, 0] ?ids s2 = Inr s3" "seeding ?db1 1 (clock morning) s3"
      by blast
    then show ?thesis by (simp only: False if_False) blast
  qed
  then obtain s3 where
    fin: "(if 50 \<le> fst s2 then Inr s2 else sell_days [6, 5, 4, 3, 2, 1, 0] ?ids s2) = Inr s3"
    and inv3: "seeding ?db1 1 (clock morning) s3"
    by blast
  have run: "sell_days [7, 6, 5, 4, 3, 2, 1, 0] ?ids (0, morning_store, morning\<lparr>stamped := 10\<rparr>) =
      Inr s3"
    by (subst sell_days.simps(2)) (simp only: prod.case five sum.case daily fin)
  obtain c db3 w3 where s3: "s3 = (c, db3, w3)" by (cases s3)
  from inv3 s3 obtain later where "transactions db3 = transactions ?db1 @ later"
    by (auto simp: seeding_def)
  then have ts3: "transactions db3 = ?t # later" by (simp add: ts1)
  have out: "generate_dummy_data (create_tables None) morning = Inr (True, db3, w3)"
    unfolding generate_dummy_data_def
    by (simp only: morning_catalog prod.case run s3 sum.case)
  have dates: "calendar_date 1727391600000000 = 19992" "calendar_date (clock morning 0) = 20000"
    by (simp_all add: calendar_date_def morning_def)
  show ?thesis using out ts3 dates by blast
qed

section \<open>Deleting a product\<close>

lemma delete_product_absent:
  "get_product_by_id db i = None \<Longrightarrow> delete_product db i = (False, db)"
  by (simp add: delete_product_def get_product_by_id_def)

lemma delete_product_present:
  "get_product_by_id db i = Some r \<Longrightarrow>
     delete_product db i =
       (True, db\<lparr>transactions := filter (\<lambda>t. product_id t \<noteq> i) (transactions db),
                 products := filter (\<lambda>p. prod_id p \<noteq> i) (products db)\<rparr>)"
  by (simp add: delete_product_def get_product_by_id_def Let_def)

lemma lookup_filtered: "find (\<lambda>p. prod_id p = i) (filter (\<lambda>p. prod_id p \<noteq> i) ps) = None"
  by (simp add: find_None_iff)

lemma retired_add_product:
  "retired i db \<Longrightarrow> retired i (snd (add_product db stamp nm cat pr co st))"
  using next_rowid_above [of "products_seq db" "map prod_id (products db)"]
  by (auto simp: retired_def add_product_result)

lemma retired_update_stock: "retired i db \<Longrightarrow> retired i (snd (update_stock db j q))"
  by (auto simp: retired_def update_stock_def set_stock_def Let_def split: option.splits if_splits)

lemma retired_restock_product: "retired i db \<Longrightarrow> retired i (snd (restock_product db j q))"
  by (auto simp: retired_def restock_product_def set_stock_def Let_def split: option.splits if_splits)

lemma retired_update_product:
  assumes "retired i db"
  shows "retired i (snd (update_product db j nm cat pr co st))"
proof -
  obtain u where u: "\<forall>p. prod_id (u p) = prod_id p"
    and ps: "products (snd (update_product db j nm cat pr co st)) = map u (products db)"
    using update_product_products [of db j nm cat pr co st] by blast
  have sq: "products_seq (snd (update_product db j nm cat pr co st)) = products_seq db"
    by (simp add: update_product_def Let_def split: option.splits)
  have "prod_id ` set (map u (products db)) = prod_id ` set (products db)"
    using u by (auto simp: image_iff)
  then show ?thesis using assms by (simp add: retired_def ps sq)
qed

lemma retired_delete_product: "retired i db \<Longrightarrow> retired i (snd (delete_product db j))"
  by (auto simp: retired_def delete_product_def Let_def split: option.splits)

lemma retired_insert_transaction:
  "retired i db \<Longrightarrow> retired i (snd (insert_transaction db j qty tp pf date))"
  by (simp add: retired_def insert_transaction_result)

lemma retired_insert_products:
  "retired i db \<Longrightarrow> retired i (fst (snd (insert_products catalog product_ids db w)))"
proof (induction catalog arbitrary: product_ids db w)
  case Nil
  then show ?case by simp
next
  case (Cons e catalog)
  obtain nm cat pr co st where e: "e = (nm, cat, pr, co, st)" by (cases e)
  have "retired i (snd (add_product db (stamps w (stamped w)) nm cat pr co st))"
    using Cons.prems by (rule retired_add_product)
  then have "retired i (db\<lparr>products := products db @
             [\<lparr>prod_id = next_rowid (products_seq db) (map prod_id (products db)),
               name = nm, category = cat, price = pr, cost = co, stock = st,
               created_at = stamps w (stamped w)\<rparr>],
           products_seq := next_rowid (products_seq db) (map prod_id (products db))\<rparr>)"
    by (simp add: add_product_result)
  from Cons.IH [OF this] show ?case
    unfolding e by (simp only: insert_products_step)
qed

lemma retired_generate_dummy_data:
  assumes "retired i db" and "generate_dummy_data db w = Inr (r, db1, w1)"
  shows "retired i db1"
proof -
  from generate_dummy_data_spec [of db w] assms(2) have
    ids: "map prod_id (products db1) =
       map prod_id (products (fst (snd (insert_products products_data [] db w))))"
    and sq: "products_seq db1 = products_seq (fst (snd (insert_products products_data [] db w)))"
    by auto
  have "set (map prod_id (products db1)) =
        set (map prod_id (products (fst (snd (insert_products products_data [] db w)))))"
    by (simp only: ids)
  then have "prod_id ` set (products db1) =
        prod_id ` set (products (fst (snd (insert_products products_data [] db w))))"
    by simp
  then show ?thesis
    using retired_insert_products [OF assms(1), of products_data "[]" w] sq
    by (simp add: retired_def)
qed

lemma retired_call: "retired i db \<Longrightarrow> retired i (call c db)"
proof (cases c)
  case (Initialize_database w)
  assume r: "retired i db"
  show ?thesis
  proof (cases "is_database_empty db")
    case True
    then show ?thesis
      using r Initialize_database retired_generate_dummy_data [OF r, of w]
      by (auto simp: initialize_database_def split: sum.splits)
  next
    case False
    then show ?thesis using r Initialize_database by (simp add: initialize_database_def)
  qed
qed (simp_all add: retired_add_product retired_update_stock retired_restock_product
      retired_update_product retired_delete_product retired_insert_transaction
      add_transaction_def add_transaction_with_date_def)

lemma retired_calls: "retired i db \<Longrightarrow> retired i (fold call cs db)"
  by (induction cs arbitrary: db) (simp_all add: retired_call)

lemma retired_hidden:
  assumes "retired i db"
  shows "i \<notin> view_product_id ` set (get_transactions db days now)"
proof -
  have "get_product_by_id db i = None"
    using assms by (auto simp: retired_def get_product_by_id_def find_None_iff)
  from no_product_no_view [OF this] show ?thesis by blast
qed

lemma retired_after_delete:
  assumes "well_numbered db"
    and "get_product_by_id db i = Some r"
  shows "retired i (snd (delete_product db i))"
proof -
  have "r \<in> set (products db)" "prod_id r = i"
    using assms(2) by (auto simp: get_product_by_id_def dest: find_Some_iff [THEN iffD1])
  then have "i \<le> products_seq db" using assms(1) by (auto simp: well_numbered_def)
  then show ?thesis
    by (auto simp: retired_def delete_product_present [OF assms(2)])
qed


lemma well_numbered_add_product:
  "well_numbered db \<Longrightarrow> well_numbered (snd (add_product db stamp nm cat pr co st))"
  using next_rowid_above [of "products_seq db" "map prod_id (products db)"]
  by (auto simp: well_numbered_def add_product_result)

lemma well_numbered_same_ids:
  assumes "well_numbered db"
    and "prod_id ` set (products db1) \<subseteq> prod_id ` set (products db)"
    and "products_seq db1 = products_seq db"
  shows "well_numbered db1"
  using assms by (auto simp: well_numbered_def)

lemma well_numbered_insert_products:
  "well_numbered db \<Longrightarrow> well_numbered (fst (snd (insert_products catalog product_ids db w)))"
proof (induction catalog arbitrary: product_ids db w)
  case Nil
  then show ?case by simp
next
  case (Cons e catalog)
  obtain nm cat pr co st where e: "e = (nm, cat, pr, co, st)" by (cases e)
  have "well_numbered (snd (add_product db (stamps w (stamped w)) nm cat pr co st))"
    using Cons.prems by (rule well_numbered_add_product)
  then have "well_numbered (db\<lparr>products := products db @
             [\<lparr>prod_id = next_rowid (products_seq db) (map prod_id (products db)),
               name = nm, category = cat, price = pr, cost = co, stock = st,
               created_at = stamps w (stamped w)\<rparr>],
           products_seq := next_rowid (products_seq db) (map prod_id (products db))\<rparr>)"
    by (simp add: add_product_result)
  from Cons.IH [OF this] show ?case
    unfolding e by (simp only: insert_products_step)
qed

lemma well_numbered_generate_dummy_data:
  assumes "well_numbered db" and "generate_dummy_data db w = Inr (r, db1, w1)"
  shows "well_numbered db1"
proof -
  from generate_dummy_data_spec [of db w] assms(2) have
    ids: "map prod_id (products db1) =
       map prod_id (products (fst (snd (insert_products products_data [] db w))))"
    and sq: "products_seq db1 = products_seq (fst (snd (insert_products products_data [] db w)))"
    by auto
  have "set (map prod_id (products db1)) =
        set (map prod_id (products (fst (snd (insert_products products_data [] db w)))))"
    by (simp only: ids)
  then have "prod_id ` set (products db1) \<subseteq>
        prod_id ` set (products (fst (snd (insert_products products_data [] db w))))"
    by simp
  from well_numbered_same_ids [OF well_numbered_insert_products [OF assms(1)] this sq]
  show ?thesis .
qed

lemma well_numbered_call: "well_numbered db \<Longrightarrow> well_numbered (call c db)"
proof (cases c)
  case (Add_product stamp nm cat pr co st)
  assume "well_numbered db"
  then show ?thesis using Add_product by (simp add: well_numbered_add_product)
next
  case (Update_stock j q)
  assume "well_numbered db"
  then show ?thesis using Update_stock
    by (auto simp: well_numbered_def update_stock_def set_stock_def Let_def
             split: option.splits if_splits)
next
  case (Restock_product j q)
  assume "well_numbered db"
  then show ?thesis using Restock_product
    by (auto simp: well_numbered_def restock_product_def set_stock_def Let_def
             split: option.splits if_splits)
next
  case (Update_product j nm cat pr co st)
  assume w: "well_numbered db"
  obtain u where u: "\<forall>p. prod_id (u p) = prod_id p"
    and ps: "products (snd (update_product db j nm cat pr co st)) = map u (products db)"
    using update_product_products [of db j nm cat pr co st] by blast
  have sq: "products_seq (snd (update_product db j nm cat pr co st)) = products_seq db"
    by (simp add: update_product_def Let_def split: option.splits)
  have "prod_id ` set (map u (products db)) \<subseteq> prod_id ` set (products db)"
    using u by (auto simp: image_iff)
  then have "prod_id ` set (products (snd (update_product db j nm cat pr co st))) \<subseteq>
      prod_id ` set (products db)"
    by (simp only: ps)
  from well_numbered_same_ids [OF w this sq] show ?thesis using Update_product by simp
next
  case (Delete_product j)
  assume "well_numbered db"
  then show ?thesis using Delete_product
    by (auto simp: well_numbered_def delete_product_def Let_def split: option.splits)
next
  case (Add_transaction stamp j qty tp pf)
  assume "well_numbered db"
  then show ?thesis using Add_transaction
    by (simp add: well_numbered_def add_transaction_def insert_transaction_result)
next
  case (Add_transaction_with_date j qty tp pf date)
  assume "well_numbered db"
  then show ?thesis using Add_transaction_with_date
    by (simp add: well_numbered_def add_transaction_with_date_def insert_transaction_result)
next
  case (Initialize_database w)
  assume r: "well_numbered db"
  show ?thesis
  proof (cases "is_database_empty db")
    case True
    then show ?thesis
      using r Initialize_database well_numbered_generate_dummy_data [OF r, of w]
      by (auto simp: initialize_database_def split: sum.splits)
  next
    case False
    then show ?thesis using r Initialize_database by (simp add: initialize_database_def)
  qed
qed

lemma well_numbered_calls: "well_numbered (fold call cs (create_tables None))"
proof -
  have "well_numbered db \<Longrightarrow> well_numbered (fold call cs db)" for db
    by (induction cs arbitrary: db) (simp_all add: well_numbered_call)
  moreover have "well_numbered (create_tables None)" by (simp add: well_numbered_def)
  ultimately show ?thesis by blast
qed

text \<open>
  Claim C2. For a product id that exists, \<open>delete_product\<close> returns True; afterwards
  the product cannot be read back, it is not among the rows of \<open>get_products\<close>, no
  transaction row has it as product\_id, and for every window and every time of the call
  \<open>get_transactions\<close> returns no row with that product\_id. In a store whose id counter
  is at least every product id this stays so after any sequence of later calls of the
  module, since no later product gets the id. For an id that does not exist
  \<open>delete_product\<close> returns False and the store is the store it was given.
\<close>

theorem delete_product_spec:
  "(get_product_by_id db i \<noteq> None \<longrightarrow>
      fst (delete_product db i) \<and>
      get_product_by_id (snd (delete_product db i)) i = None \<and>
      i \<notin> prod_id ` set (get_products (snd (delete_product db i))) \<and>
      i \<notin> product_id ` set (transactions (snd (delete_product db i))) \<and>
      (\<forall>days now.
         i \<notin> view_product_id ` set (get_transactions (snd (delete_product db i)) days now)) \<and>
      (well_numbered db \<longrightarrow>
         (\<forall>cs days now.
            i \<notin> view_product_id `
              set (get_transactions (fold call cs (snd (delete_product db i))) days now)))) \<and>
   (get_product_by_id db i = None \<longrightarrow> delete_product db i = (False, db))"
proof (cases "get_product_by_id db i")
  case None
  then show ?thesis by (simp add: delete_product_absent)
next
  case (Some r)
  let ?db = "snd (delete_product db i)"
  have eq: "?db = db\<lparr>transactions := filter (\<lambda>t. product_id t \<noteq> i) (transactions db),
                 products := filter (\<lambda>p. prod_id p \<noteq> i) (products db)\<rparr>"
    by (simp add: delete_product_present [OF Some])
  have ok: "fst (delete_product db i)"
    by (simp add: delete_product_present [OF Some])
  have gone: "get_product_by_id ?db i = None"
    by (simp add: eq get_product_by_id_def lookup_filtered)
  have prods: "i \<notin> prod_id ` set (get_products ?db)"
    by (auto simp: eq get_products_def)
  have txns: "i \<notin> product_id ` set (transactions ?db)"
    by (auto simp: eq)
  have views: "i \<notin> view_product_id ` set (get_transactions ?db days now)" for days now
    using no_product_no_view [OF gone] by blast
  have later: "i \<notin> view_product_id ` set (get_transactions (fold call cs ?db) days now)"
    if "well_numbered db" for cs days now
    using retired_hidden [OF retired_calls [OF retired_after_delete [OF that Some]]] .
  show ?thesis using Some ok gone prods txns views later by simp
qed

theorem delete_product_spec_witness:
  "get_product_by_id shop_sold 1 \<noteq> None \<and>
   product_id ` set (transactions shop_sold) = {1} \<and>
   well_numbered shop_sold \<and>
   fst (delete_product shop_sold 1) \<and>
   get_product_by_id (snd (delete_product shop_sold 1)) 1 = None \<and>
   1 \<notin> product_id ` set (transactions (snd (delete_product shop_sold 1))) \<and>
   (\<forall>days now.
      1 \<notin> view_product_id ` set (get_transactions (snd (delete_product shop_sold 1)) days now)) \<and>
   (\<forall>cs days now.
      1 \<notin> view_product_id `
        set (get_transactions (fold call cs (snd (delete_product shop_sold 1))) days now)) \<and>
   get_product_by_id shop_sold 2 = None \<and>
   delete_product shop_sold 2 = (False, shop_sold)"
proof -
  have present: "get_product_by_id shop_sold 1 \<noteq> None"
    by (simp add: get_product_by_id_def shop_sold_eval)
  have absent: "get_product_by_id shop_sold 2 = None"
    by (simp add: get_product_by_id_def shop_sold_eval)
  have sold: "product_id ` set (transactions shop_sold) = {1}"
    by (simp add: shop_sold_eval)
  have wn: "well_numbered shop_sold"
    by (simp add: well_numbered_def shop_sold_eval)
  show ?thesis
    using delete_product_spec [of shop_sold 1] delete_product_spec [of shop_sold 2]
      present absent sold wn
    by simp
qed

section \<open>Initialising the store\<close>

lemma initialize_database_on_empty:
  assumes "is_database_empty (create_tables file)"
  shows "\<exists>db1 w1. initialize_database file w = Inr (True, db1, w1) \<and>
           map prod_id (products db1) =
             map prod_id (products (fst (snd (insert_products products_data []
                                               (create_tables file) w))))"
proof -
  from generate_dummy_data_spec [of "create_tables file" w] obtain db1 w1 where
    "generate_dummy_data (create_tables file) w = Inr (True, db1, w1)"
    "map prod_id (products db1) =
       map prod_id (products (fst (snd (insert_products products_data []
                                         (create_tables file) w))))"
    by blast
  then show ?thesis using assms by (simp add: initialize_database_def)
qed

lemma delete_product_ids:
  "prod_id ` set (products (snd (delete_product db j))) = prod_id ` set (products db) - {j}"
proof (cases "get_product_by_id db j")
  case None
  then have "j \<notin> prod_id ` set (products db)"
    by (auto simp: get_product_by_id_def find_None_iff)
  then show ?thesis using None by (simp add: delete_product_absent)
next
  case (Some r)
  then show ?thesis by (auto simp: delete_product_present)
qed

lemma delete_products_ids:
  "prod_id ` set (products (fold call (map Delete_product js) db)) =
     prod_id ` set (products db) - set js"
  by (induction js arbitrary: db) (auto simp: delete_product_ids)

lemma seeded_ids:
  "\<exists>w1. initialize_database None morning = Inr (True, seeded, w1)"
  "map prod_id (products seeded) = [1, 2, 3, 4, 5, 6, 7, 8, 9, 10]"
proof -
  have "is_database_empty (create_tables None)" by (simp add: is_database_empty_def)
  from initialize_database_on_empty [OF this, of morning] obtain db1 w1 where
    run: "initialize_database None morning = Inr (True, db1, w1)"
    and ids: "map prod_id (products db1) =
             map prod_id (products (fst (snd (insert_products products_data []
                                               (create_tables None) morning))))"
    by blast
  have run2: "initialize_database (Some (create_tables None)) morning = Inr (True, db1, w1)"
    using run by (simp add: initialize_database_def)
  have s: "seeded = db1" unfolding seeded_def call.simps run2 by simp
  show "\<exists>w1. initialize_database None morning = Inr (True, seeded, w1)"
    using run s by blast
  have "map prod_id (products db1) = map prod_id (products morning_store)"
    using ids unfolding morning_catalog by simp
  then show "map prod_id (products seeded) = [1, 2, 3, 4, 5, 6, 7, 8, 9, 10]"
    by (simp add: s morning_store_def)
qed

lemma emptied_empty: "products emptied = []"
proof -
  have "prod_id ` set (products emptied) =
        set (map prod_id (products seeded)) - set [1, 2, 3, 4, 5, 6, 7, 8, 9, 10]"
    unfolding emptied_def by (simp only: delete_products_ids set_map)
  then have "prod_id ` set (products emptied) = {}"
    by (simp only: seeded_ids(2) Diff_cancel)
  then show ?thesis by simp
qed

text \<open>
  Claim C7 says that \<open>initialize_database\<close> returns True once and False on every
  later call, which leaves the data as it is. On a new file the first call returns True;
  after \<open>delete_product\<close> for each of the ten products the table is empty again, and
  the next call returns True a second time and fills the table again.
\<close>

theorem initialize_database_counterexample:
  "map_sum id fst (initialize_database None morning) = Inr True \<and>
   is_database_empty emptied \<and>
   map_sum id fst (initialize_database (Some emptied) morning) = Inr True \<and>
   call (Initialize_database morning) emptied \<noteq> emptied"
proof -
  from seeded_ids(1) obtain w1 where "initialize_database None morning = Inr (True, seeded, w1)"
    by blast
  then have first: "map_sum id fst (initialize_database None morning) = Inr True" by simp
  have empty: "is_database_empty emptied"
    by (simp add: is_database_empty_def emptied_empty)
  then have "is_database_empty (create_tables (Some emptied))" by simp
  from initialize_database_on_empty [OF this, of morning] obtain db2 w2 where
    run: "initialize_database (Some emptied) morning = Inr (True, db2, w2)"
    and ids: "map prod_id (products db2) =
             map prod_id (products (fst (snd (insert_products products_data []
                                               (create_tables (Some emptied)) morning))))"
    by blast
  from insert_products_spec [of products_data "[]" emptied morning] obtain rows sq where
    ins: "insert_products products_data [] emptied morning =
            ([] @ map prod_id rows,
             emptied\<lparr>products := products emptied @ rows, products_seq := sq\<rparr>,
             morning\<lparr>stamped := stamped morning + length products_data\<rparr>)"
    and entries: "map entry rows = products_data"
    by blast
  have "length (map entry rows) = length products_data" by (simp only: entries)
  then have "rows \<noteq> []" by (auto simp: products_data_def)
  then have "map prod_id (products db2) \<noteq> []"
    by (simp add: ids ins)
  then have "products db2 \<noteq> products emptied" by (auto simp: emptied_empty)
  then have changed: "call (Initialize_database morning) emptied \<noteq> emptied"
    by (auto simp: run)
  show ?thesis using first empty run changed by simp
qed

text \<open>
  Claim C7, amended. \<open>initialize_database\<close>, after \<open>create_tables\<close>, returns True
  exactly when the products table is empty at the time of the call, not once only; it
  then returns a store whose products table is not empty (no call of the random source
  fails), and every later call on that store, with any random source and clock, returns
  False and the same store. On every store whose products table is not empty it returns
  False and the store it was given.
\<close>

theorem initialize_database_once:
  "(is_database_empty (create_tables file) \<longrightarrow>
      (\<exists>db1 w1. initialize_database file w = Inr (True, db1, w1) \<and>
         \<not> is_database_empty db1 \<and>
         (\<forall>w2. initialize_database (Some db1) w2 = Inr (False, db1, w2)))) \<and>
   (\<not> is_database_empty (create_tables file) \<longrightarrow>
      initialize_database file w = Inr (False, create_tables file, w))"
proof (cases "is_database_empty (create_tables file)")
  case False
  then show ?thesis by (simp add: initialize_database_def)
next
  case True
  from generate_dummy_data_spec [of "create_tables file" w] obtain db1 w1 and rows :: "product list"
    where run: "generate_dummy_data (create_tables file) w = Inr (True, db1, w1)"
      and len: "length rows = 10"
      and ids: "map prod_id (products db1) =
                  map prod_id (products (create_tables file)) @ map prod_id rows"
    by blast
  have "length (map prod_id (products db1)) =
        length (map prod_id (products (create_tables file)) @ map prod_id rows)"
    by (simp only: ids)
  then have filled: "\<not> is_database_empty db1"
    using len by (simp add: is_database_empty_def)
  have first: "initialize_database file w = Inr (True, db1, w1)"
    using True run by (simp add: initialize_database_def)
  have later: "initialize_database (Some db1) w2 = Inr (False, db1, w2)" for w2
    using filled by (simp add: initialize_database_def)
  show ?thesis using True first filled later by blast
qed

theorem initialize_database_once_witness:
  "is_database_empty (create_tables None) \<and>
   (\<exists>db1 w1. initialize_database None morning = Inr (True, db1, w1) \<and>
      \<not> is_database_empty db1 \<and>
      (\<forall>w2. initialize_database (Some db1) w2 = Inr (False, db1, w2))) \<and>
   \<not> is_database_empty (create_tables (Some shop)) \<and>
   initialize_database (Some shop) morning = Inr (False, shop, morning)"
proof -
  have a: "is_database_empty (create_tables None)"
    by (simp add: is_database_empty_def)
  have b: "\<not> is_database_empty (create_tables (Some shop))"
    by (simp add: is_database_empty_def shop_eval)
  show ?thesis
    using initialize_database_once [of None morning]
      initialize_database_once [of "Some shop" morning] a b
    by simp
qed

section \<open>Transactions of a product that does not exist\<close>

lemma shop_orphan_eval:
  "shop_orphan =
     \<lparr>products =
        [\<lparr>prod_id = 1, name = ''Mouse'', category = ''Aksesoris'', price = 850, cost = 650,
          stock = 5, created_at = 0\<rparr>],
      transactions =
        [\<lparr>txn_id = 1, product_id = 2, quantity = 1, total_price = 10, profit = 2,
          transaction_date = 50\<rparr>],
      products_seq = 1, transactions_seq = 1\<rparr>"
  by (simp add: shop_orphan_def add_transaction_def insert_transaction_result next_rowid_def
        shop_eval)

lemma shop_adopted_eval:
  "shop_adopted =
     \<lparr>products =
        [\<lparr>prod_id = 1, name = ''Mouse'', category = ''Aksesoris'', price = 850, cost = 650,
          stock = 5, created_at = 0\<rparr>,
         \<lparr>prod_id = 2, name = ''Keyboard'', category = ''Aksesoris'', price = 750, cost = 500,
          stock = 40, created_at = 60\<rparr>],
      transactions =
        [\<lparr>txn_id = 1, product_id = 2, quantity = 1, total_price = 10, profit = 2,
          transaction_date = 50\<rparr>],
      products_seq = 2, transactions_seq = 1\<rparr>"
  by (simp add: shop_adopted_def add_product_result next_rowid_def shop_orphan_eval)

text \<open>
  Claim C10 says that a transaction added for a product id that no product has is never
  visible in the output of \<open>get_transactions\<close>. In the store \<open>shop\<close>, whose only
  product has the id 1, \<open>add_transaction\<close> for the product id 2 returns the
  transaction id 1, and \<open>get_transactions\<close> returns no row. The next \<open>add_product\<close>
  returns the id 2, and \<open>get_transactions\<close> returns the transaction, under the name
  of the new product.
\<close>

theorem orphan_counterexample:
  "get_product_by_id shop 2 = None \<and>
   fst (add_transaction shop 50 2 1 10 2) = 1 \<and>
   get_transactions shop_orphan 7 60 = [] \<and>
   fst (add_product shop_orphan 60 ''Keyboard'' ''Aksesoris'' 750 500 40) = 2 \<and>
   get_transactions shop_adopted 7 60 =
     [\<lparr>view_id = 1, view_product_id = 2, product_name = ''Keyboard'', view_quantity = 1,
       view_total_price = 10, view_profit = 2, view_transaction_date = 50\<rparr>]"
  by (simp add: get_product_by_id_def add_transaction_def insert_transaction_result
        add_product_result next_rowid_def get_transactions_def join_row_def timedelta_def
        shop_eval shop_orphan_eval shop_adopted_eval)

text \<open>
  Claim C10, amended. \<open>add_transaction\<close> returns, for every product id, an id that no
  transaction row had, and appends the row it was given; the products table is not read
  and not changed. When no product has the id, no row of \<open>get_transactions\<close>, for any
  window and time, carries that product id or the id of the new transaction: the inner join
  finds no product for it. This lasts for as long as no product has the id: in every
  store in which no product has it, no row of \<open>get_transactions\<close> carries it. It lasts
  through every sequence of later calls when the id is at most the counter of product
  ids, since no later product gets such an id.
\<close>

theorem add_transaction_unchecked:
  "fst (add_transaction db stamp i qty tp pf) \<notin> txn_id ` set (transactions db) \<and>
   transactions (snd (add_transaction db stamp i qty tp pf)) =
     transactions db @
       [\<lparr>txn_id = fst (add_transaction db stamp i qty tp pf), product_id = i, quantity = qty,
         total_price = tp, profit = pf, transaction_date = stamp\<rparr>] \<and>
   products (snd (add_transaction db stamp i qty tp pf)) = products db \<and>
   (get_product_by_id db i = None \<longrightarrow>
      (\<forall>days now.
         i \<notin> view_product_id ` set (get_transactions (snd (add_transaction db stamp i qty tp pf)) days now) \<and>
         fst (add_transaction db stamp i qty tp pf) \<notin>
           view_id ` set (get_transactions (snd (add_transaction db stamp i qty tp pf)) days now))) \<and>
   (\<forall>db2 days now.
      get_product_by_id db2 i = None \<longrightarrow>
        i \<notin> view_product_id ` set (get_transactions db2 days now)) \<and>
   (retired i db \<longrightarrow>
      (\<forall>cs days now.
         i \<notin> view_product_id `
           set (get_transactions (fold call cs (snd (add_transaction db stamp i qty tp pf)))
                  days now)))"
proof -
  let ?k = "next_rowid (transactions_seq db) (map txn_id (transactions db))"
  let ?db = "snd (add_transaction db stamp i qty tp pf)"
  have k: "fst (add_transaction db stamp i qty tp pf) = ?k"
    by (simp add: add_transaction_def insert_transaction_result)
  have fresh: "?k \<notin> txn_id ` set (transactions db)"
    using next_rowid_fresh [of "transactions_seq db" "map txn_id (transactions db)"] by simp
  have ts: "transactions ?db = transactions db @
       [\<lparr>txn_id = ?k, product_id = i, quantity = qty,
         total_price = tp, profit = pf, transaction_date = stamp\<rparr>]"
    by (simp add: add_transaction_def insert_transaction_result)
  have ps: "products ?db = products db"
    by (simp add: add_transaction_def insert_transaction_result)
  have hidden: "i \<notin> view_product_id ` set (get_transactions ?db days now) \<and>
      ?k \<notin> view_id ` set (get_transactions ?db days now)"
    if absent: "get_product_by_id db i = None" for days now
  proof -
    have none: "get_product_by_id ?db i = None"
      using absent by (simp add: get_product_by_id_def ps)
    have a: "i \<notin> view_product_id ` set (get_transactions ?db days now)"
      using no_product_no_view [OF none] by blast
    have b: "?k \<notin> view_id ` set (get_transactions ?db days now)"
    proof
      assume "?k \<in> view_id ` set (get_transactions ?db days now)"
      then obtain r where r: "r \<in> set (get_transactions ?db days now)" and rk: "view_id r = ?k"
        by auto
      from view_has_product [OF r] obtain t p where
        t: "t \<in> set (transactions ?db)" and p: "p \<in> set (products ?db)"
        and tp: "product_id t = prod_id p" and vt: "view_id r = txn_id t"
        by blast
      from t ts have "t \<in> set (transactions db) \<or> product_id t = i" by auto
      then show False
      proof
        assume "t \<in> set (transactions db)"
        then show False using fresh vt rk by force
      next
        assume "product_id t = i"
        then have "find (\<lambda>p. prod_id p = i) (products db) \<noteq> None"
          using p tp ps by (auto simp: find_None_iff)
        then show False using absent by (simp add: get_product_by_id_def)
      qed
    qed
    show ?thesis using a b by simp
  qed
  have orphans: "i \<notin> view_product_id ` set (get_transactions db2 days now)"
    if "get_product_by_id db2 i = None" for db2 days now
    using no_product_no_view [OF that] by blast
  have lasting: "i \<notin> view_product_id ` set (get_transactions (fold call cs ?db) days now)"
    if "retired i db" for cs days now
  proof -
    have "retired i ?db"
      using that retired_insert_transaction [of i db i qty tp pf stamp]
      by (simp add: add_transaction_def)
    from retired_hidden [OF retired_calls [OF this]] show ?thesis .
  qed
  show ?thesis
    using fresh ts ps hidden orphans lasting by (simp add: k)
qed

theorem add_transaction_unchecked_witness:
  "get_product_by_id shop 99 = None \<and>
   fst (add_transaction shop 50 99 1 10 2) = 1 \<and>
   transactions (snd (add_transaction shop 50 99 1 10 2)) =
     [\<lparr>txn_id = 1, product_id = 99, quantity = 1, total_price = 10, profit = 2,
       transaction_date = 50\<rparr>] \<and>
   (\<forall>days now. 99 \<notin> view_product_id ` set (get_transactions (snd (add_transaction shop 50 99 1 10 2)) days now)) \<and>
   (\<forall>days now. 1 \<notin> view_id ` set (get_transactions (snd (add_transaction shop 50 99 1 10 2)) days now)) \<and>
   retired 1 shop_closed \<and>
   (\<forall>cs days now.
      1 \<notin> view_product_id `
        set (get_transactions (fold call cs (snd (add_transaction shop_closed 70 1 1 10 2)))
               days now))"
proof -
  have absent: "get_product_by_id shop 99 = None"
    by (simp add: get_product_by_id_def shop_products)
  have ts: "transactions shop = []"
    by (simp add: shop_eval)
  have k: "fst (add_transaction shop 50 99 1 10 2) = 1"
    by (simp add: add_transaction_def insert_transaction_result next_rowid_def shop_eval)
  have closed: "retired 1 shop_closed"
    by (simp add: retired_def shop_closed_def shop_sold_eval delete_product_def)
  show ?thesis
    using add_transaction_unchecked [of shop 50 99 1 10 2]
      add_transaction_unchecked [of shop_closed 70 1 1 10 2] absent k ts closed
    by simp
qed

end
